theory Spec2Isabelle
  imports Main "HOL-Library.Word"
begin

unbundle bit_operations_syntax

section \<open>JavaScript integer operators\<close>

text \<open>
  The simulator is JavaScript. Its numbers are modelled as \<open>int\<close>; the operators that
  force a value to 32 bits are written out through \<open>32 word\<close>:
  \<^verbatim>\<open>x | 0\<close> is \<open>to_int32\<close>, the unsigned conversion \<^verbatim>\<open>x >>> 0\<close> is \<open>to_uint32\<close>, the
  bitwise operators convert both operands to 32 bits and give a signed result, the shifts
  use the low five bits of the shift count, and the unsigned right shift gives an
  unsigned result.
\<close>

definition to_int32 :: "int \<Rightarrow> int" where
  "to_int32 x = sint (word_of_int x :: 32 word)"

definition to_uint32 :: "int \<Rightarrow> int" where
  "to_uint32 x = uint (word_of_int x :: 32 word)"

definition js_and :: "int \<Rightarrow> int \<Rightarrow> int" where
  "js_and a b = sint ((word_of_int a :: 32 word) AND word_of_int b)"

definition js_or :: "int \<Rightarrow> int \<Rightarrow> int" where
  "js_or a b = sint ((word_of_int a :: 32 word) OR word_of_int b)"

definition js_xor :: "int \<Rightarrow> int \<Rightarrow> int" where
  "js_xor a b = sint ((word_of_int a :: 32 word) XOR word_of_int b)"

definition js_not :: "int \<Rightarrow> int" where
  "js_not a = sint (NOT (word_of_int a :: 32 word))"

definition shift_count :: "int \<Rightarrow> nat" where
  "shift_count n = nat (to_uint32 n mod 32)"

definition js_shl :: "int \<Rightarrow> int \<Rightarrow> int" where
  "js_shl a n = sint (push_bit (shift_count n) (word_of_int a :: 32 word))"

definition js_sar :: "int \<Rightarrow> int \<Rightarrow> int" where
  "js_sar a n = sint (signed_drop_bit (shift_count n) (word_of_int a :: 32 word))"

definition js_shr :: "int \<Rightarrow> int \<Rightarrow> int" where
  "js_shr a n = uint (drop_bit (shift_count n) (word_of_int a :: 32 word))"

text \<open>\<open>a % b\<close> takes the sign of the dividend; \<open>Math.floor(a / 4)\<close> on an integer \<open>a\<close>
  is HOL's \<open>a div 4\<close>, which rounds down.\<close>

definition js_rem :: "int \<Rightarrow> int \<Rightarrow> int" where
  "js_rem a b = sgn a * (\<bar>a\<bar> mod \<bar>b\<bar>)"

section \<open>Instruction records\<close>

text \<open>
  The mnemonics are the keys of \<open>instructionFormats\<close> (parser.js) and of \<open>opcodes\<close>
  (decoder.js); the two tables have the same keys and give every key the same format
  class. \<open>AND\<close>, \<open>OR\<close> and \<open>XOR\<close> carry a suffix because the plain names are HOL's bit
  operators.
\<close>

datatype opcode =
    ADD | SUB | SLL | SLT | SLTU | XOR_op | SRL | SRA | OR_op | AND_op
  | ADDI | SLTI | SLTIU | XORI | ORI | ANDI | SLLI | SRLI | SRAI
  | LB | LH | LW | LBU | LHU
  | SB | SH | SW
  | BEQ | BNE | BLT | BGE | BLTU | BGEU
  | JAL | JALR
  | LUI | AUIPC
  | HLT

datatype format =
    FmtR | FmtI | FmtIL | FmtS | FmtSB | FmtUJ | FmtJALR | FmtU | FmtHLT

fun opcode_type :: "opcode \<Rightarrow> format" where
  "opcode_type ADD = FmtR" | "opcode_type SUB = FmtR" | "opcode_type SLL = FmtR"
| "opcode_type SLT = FmtR" | "opcode_type SLTU = FmtR" | "opcode_type XOR_op = FmtR"
| "opcode_type SRL = FmtR" | "opcode_type SRA = FmtR" | "opcode_type OR_op = FmtR"
| "opcode_type AND_op = FmtR"
| "opcode_type ADDI = FmtI" | "opcode_type SLTI = FmtI" | "opcode_type SLTIU = FmtI"
| "opcode_type XORI = FmtI" | "opcode_type ORI = FmtI" | "opcode_type ANDI = FmtI"
| "opcode_type SLLI = FmtI" | "opcode_type SRLI = FmtI" | "opcode_type SRAI = FmtI"
| "opcode_type LB = FmtIL" | "opcode_type LH = FmtIL" | "opcode_type LW = FmtIL"
| "opcode_type LBU = FmtIL" | "opcode_type LHU = FmtIL"
| "opcode_type SB = FmtS" | "opcode_type SH = FmtS" | "opcode_type SW = FmtS"
| "opcode_type BEQ = FmtSB" | "opcode_type BNE = FmtSB" | "opcode_type BLT = FmtSB"
| "opcode_type BGE = FmtSB" | "opcode_type BLTU = FmtSB" | "opcode_type BGEU = FmtSB"
| "opcode_type JAL = FmtUJ" | "opcode_type JALR = FmtJALR"
| "opcode_type LUI = FmtU" | "opcode_type AUIPC = FmtU"
| "opcode_type HLT = FmtHLT"

text \<open>
  Each \<open>throw new Error(...)\<close> of the source that the model can reach is one
  constructor, named after its message; \<open>TypeError\<close> is the exception the JavaScript
  runtime itself raises.
\<close>

datatype error =
    MissingOperands opcode
  | ShiftAmountRange opcode
  | BranchOffsetNotEven opcode
  | JumpOffsetNotEven opcode
  | InvalidRegisterField string int
  | InvalidRegisterIndex int
  | MemoryAccessViolation int
  | UnalignedHalfWord int
  | UnalignedWord int
  | EmptyInstruction
  | UnknownInstruction string
  | OperandCount opcode
  | RequiresFormat opcode
  | InvalidFormat opcode
  | InvalidRegister string
  | InvalidImmediate string
  | ImmediateRange int int
  | MissingOpcode
  | TypeError
  | AtLine nat error

text \<open>
  The record the parser builds: \<open>opcode\<close>, \<open>format\<close>, \<open>index\<close>, \<open>lineNum\<close> and
  \<open>original\<close> always, the other properties only where the format's parser sets them
  (\<open>None\<close> is JavaScript's \<open>undefined\<close>).
\<close>

record instruction =
  opcode :: opcode
  format :: format
  index :: int
  lineNum :: nat
  original :: string
  rd :: "int option"
  rs1 :: "int option"
  rs2 :: "int option"
  imm :: "int option"
  label :: "string option"

text \<open>
  The decoder's output. Each \<open>decodeXFormat\<close> sets the operand properties of its format
  after checking that they are defined, and each handler of the executor reads only the
  properties of its opcode's format, so the operand fields are total here and hold 0
  where the JavaScript object has no such property.
\<close>

record decoded =
  d_opcode :: opcode
  d_type :: format
  d_format :: format
  d_index :: int
  d_lineNum :: nat
  d_original :: string
  d_rd :: int
  d_rs1 :: int
  d_rs2 :: int
  d_imm :: int
  d_shamt :: "int option"
  d_label :: "string option"

section \<open>Decoder (decoder.js)\<close>

definition seq :: "error + unit \<Rightarrow> error + 'a \<Rightarrow> error + 'a" where
  "seq a b = (case a of Inl e \<Rightarrow> Inl e | Inr _ \<Rightarrow> b)"

definition validateRegister :: "int \<Rightarrow> string \<Rightarrow> error + unit" where
  "validateRegister reg name =
     (if reg < 0 \<or> reg > 31 then Inl (InvalidRegisterField name reg) else Inr ())"

definition signExtend :: "int \<Rightarrow> int \<Rightarrow> int" where
  "signExtend v bits =
     (let signBit = js_shl 1 (bits - 1) in
      if js_and v signBit \<noteq> 0 then js_or v (js_shl (- 1) bits)
      else js_and v (js_shl 1 bits - 1))"

definition decodeRFormat :: "instruction \<Rightarrow> decoded \<Rightarrow> error + decoded" where
  "decodeRFormat ins d =
     (case (rd ins, rs1 ins, rs2 ins) of
        (Some r, Some a, Some b) \<Rightarrow>
          seq (validateRegister r ''rd'') (seq (validateRegister a ''rs1'')
            (seq (validateRegister b ''rs2'') (Inr (d\<lparr>d_rd := r, d_rs1 := a, d_rs2 := b\<rparr>))))
      | _ \<Rightarrow> Inl (MissingOperands (opcode ins)))"

definition decodeIFormat :: "instruction \<Rightarrow> decoded \<Rightarrow> error + decoded" where
  "decodeIFormat ins d =
     (case (rd ins, rs1 ins, imm ins) of
        (Some r, Some a, Some i) \<Rightarrow>
          (let d1 = d\<lparr>d_rd := r, d_rs1 := a, d_imm := signExtend i 12\<rparr> in
           if opcode ins \<in> {SLLI, SRLI, SRAI} then
             (if i < 0 \<or> i > 31 then Inl (ShiftAmountRange (opcode ins))
              else seq (validateRegister r ''rd'') (seq (validateRegister a ''rs1'')
                     (Inr (d1\<lparr>d_shamt := Some i\<rparr>))))
           else seq (validateRegister r ''rd'') (seq (validateRegister a ''rs1'') (Inr d1)))
      | _ \<Rightarrow> Inl (MissingOperands (opcode ins)))"

definition decodeLoadFormat :: "instruction \<Rightarrow> decoded \<Rightarrow> error + decoded" where
  "decodeLoadFormat ins d =
     (case (rd ins, rs1 ins, imm ins) of
        (Some r, Some a, Some i) \<Rightarrow>
          seq (validateRegister r ''rd'') (seq (validateRegister a ''rs1'')
            (Inr (d\<lparr>d_rd := r, d_rs1 := a, d_imm := signExtend i 12\<rparr>)))
      | _ \<Rightarrow> Inl (MissingOperands (opcode ins)))"

definition decodeStoreFormat :: "instruction \<Rightarrow> decoded \<Rightarrow> error + decoded" where
  "decodeStoreFormat ins d =
     (case (rs1 ins, rs2 ins, imm ins) of
        (Some a, Some b, Some i) \<Rightarrow>
          seq (validateRegister a ''rs1'') (seq (validateRegister b ''rs2'')
            (Inr (d\<lparr>d_rs1 := a, d_rs2 := b, d_imm := signExtend i 12\<rparr>)))
      | _ \<Rightarrow> Inl (MissingOperands (opcode ins)))"

definition decodeBranchFormat :: "instruction \<Rightarrow> decoded \<Rightarrow> error + decoded" where
  "decodeBranchFormat ins d =
     (case (rs1 ins, rs2 ins, imm ins) of
        (Some a, Some b, Some i) \<Rightarrow>
          (let d1 = d\<lparr>d_rs1 := a, d_rs2 := b, d_imm := signExtend i 13\<rparr>;
               d2 = (case label ins of Some l \<Rightarrow> (if l \<noteq> [] then d1\<lparr>d_label := Some l\<rparr> else d1)
                                     | None \<Rightarrow> d1) in
           if js_rem (d_imm d2) 2 \<noteq> 0 then Inl (BranchOffsetNotEven (opcode ins))
           else seq (validateRegister a ''rs1'') (seq (validateRegister b ''rs2'') (Inr d2)))
      | _ \<Rightarrow> Inl (MissingOperands (opcode ins)))"

definition decodeJALFormat :: "instruction \<Rightarrow> decoded \<Rightarrow> error + decoded" where
  "decodeJALFormat ins d =
     (case (rd ins, imm ins) of
        (Some r, Some i) \<Rightarrow>
          (let d1 = d\<lparr>d_rd := r, d_imm := signExtend i 21\<rparr>;
               d2 = (case label ins of Some l \<Rightarrow> (if l \<noteq> [] then d1\<lparr>d_label := Some l\<rparr> else d1)
                                     | None \<Rightarrow> d1) in
           if js_rem (d_imm d2) 2 \<noteq> 0 then Inl (JumpOffsetNotEven (opcode ins))
           else seq (validateRegister r ''rd'') (Inr d2))
      | _ \<Rightarrow> Inl (MissingOperands (opcode ins)))"

definition decodeJALRFormat :: "instruction \<Rightarrow> decoded \<Rightarrow> error + decoded" where
  "decodeJALRFormat ins d =
     (case (rd ins, rs1 ins, imm ins) of
        (Some r, Some a, Some i) \<Rightarrow>
          seq (validateRegister r ''rd'') (seq (validateRegister a ''rs1'')
            (Inr (d\<lparr>d_rd := r, d_rs1 := a, d_imm := signExtend i 12\<rparr>)))
      | _ \<Rightarrow> Inl (MissingOperands (opcode ins)))"

definition decodeUFormat :: "instruction \<Rightarrow> decoded \<Rightarrow> error + decoded" where
  "decodeUFormat ins d =
     (case (rd ins, imm ins) of
        (Some r, Some i) \<Rightarrow>
          seq (validateRegister r ''rd'')
            (Inr (d\<lparr>d_rd := r, d_imm := js_shl (js_and i 1048575) 12\<rparr>))
      | _ \<Rightarrow> Inl (MissingOperands (opcode ins)))"

text \<open>
  \<open>decode\<close>: the record's opcode is one of the table's keys by its type (the parser
  stores the mnemonic in upper case), so the checks for a missing or unknown opcode
  cannot fail and \<open>toUpperCase\<close> changes nothing.
\<close>

definition decode :: "instruction \<Rightarrow> error + decoded" where
  "decode ins =
     (let d = \<lparr>d_opcode = opcode ins, d_type = opcode_type (opcode ins),
               d_format = format ins, d_index = index ins, d_lineNum = lineNum ins,
               d_original = original ins, d_rd = 0, d_rs1 = 0, d_rs2 = 0, d_imm = 0,
               d_shamt = None, d_label = None\<rparr> in
      case opcode_type (opcode ins) of
        FmtR \<Rightarrow> decodeRFormat ins d
      | FmtI \<Rightarrow> decodeIFormat ins d
      | FmtIL \<Rightarrow> decodeLoadFormat ins d
      | FmtS \<Rightarrow> decodeStoreFormat ins d
      | FmtSB \<Rightarrow> decodeBranchFormat ins d
      | FmtUJ \<Rightarrow> decodeJALFormat ins d
      | FmtJALR \<Rightarrow> decodeJALRFormat ins d
      | FmtU \<Rightarrow> decodeUFormat ins d
      | FmtHLT \<Rightarrow> Inr d)"

section \<open>Executor (executor.js)\<close>

text \<open>
  The state object of the controller: \<open>registers\<close> is an array of 32 numbers, \<open>memory\<close> a
  JavaScript array that the adapter reads as \<^verbatim>\<open>state.memory[addr] || 0\<close> and writes as
  \<^verbatim>\<open>state.memory[addr] = v\<close> with no check of \<open>addr\<close>. A JavaScript array keeps a value
  under any integer key it is given (a key past the end extends the array, a negative key
  becomes a plain property), so the memory is a partial map from keys to values;
  \<open>mem_get\<close> is the read with its default. \<open>machine\<close> is the part of the state that
  the controller returns to its caller; \<open>instructions\<close> is \<open>None\<close> where the object has
  no such property.
\<close>

record machine =
  registers :: "int list"
  memory :: "int \<rightharpoonup> int"
  pc :: int
  halted :: bool

record sim_state = machine +
  instructions :: "instruction list option"

definition mem_get :: "(int \<rightharpoonup> int) \<Rightarrow> int \<Rightarrow> int" where
  "mem_get m a = (case m a of None \<Rightarrow> 0 | Some v \<Rightarrow> v)"

text \<open>
  The adapter that \<open>execute\<close> builds around the state object (lines 19 to 62). The
  decoder admits register indices 0 to 31 only; a read of \<open>state.registers[r]\<close> outside
  the array is JavaScript's \<open>undefined\<close>, which the model does not have, so statements
  about register values are made for indices inside the array. A write under a negative
  index leaves the array's elements as they are.
\<close>

definition getRegister :: "sim_state \<Rightarrow> int \<Rightarrow> int" where
  "getRegister st r = (if r = 0 then 0 else registers st ! nat r)"

definition setRegister :: "sim_state \<Rightarrow> int \<Rightarrow> int \<Rightarrow> sim_state" where
  "setRegister st r v =
     (if r \<noteq> 0 then
        (if 0 \<le> r then st\<lparr>registers := (registers st)[nat r := to_int32 v]\<rparr> else st)
      else st)"

definition readByte :: "sim_state \<Rightarrow> int \<Rightarrow> int" where
  "readByte st addr =
     (let val = mem_get (memory st) addr in if val > 127 then val - 256 else val)"

definition readByteUnsigned :: "sim_state \<Rightarrow> int \<Rightarrow> int" where
  "readByteUnsigned st addr = mem_get (memory st) addr"

definition readHalfWordUnsigned :: "sim_state \<Rightarrow> int \<Rightarrow> int" where
  "readHalfWordUnsigned st addr =
     (let low = mem_get (memory st) addr; high = mem_get (memory st) (addr + 1)
      in js_or low (js_shl high 8))"

definition readHalfWord :: "sim_state \<Rightarrow> int \<Rightarrow> int" where
  "readHalfWord st addr =
     (let low = mem_get (memory st) addr; high = mem_get (memory st) (addr + 1);
          val = js_or low (js_shl high 8)
      in if val > 32767 then val - 65536 else val)"

definition readWord :: "sim_state \<Rightarrow> int \<Rightarrow> int" where
  "readWord st addr =
     (let b0 = mem_get (memory st) addr; b1 = mem_get (memory st) (addr + 1);
          b2 = mem_get (memory st) (addr + 2); b3 = mem_get (memory st) (addr + 3)
      in js_or (js_or (js_or b0 (js_shl b1 8)) (js_shl b2 16)) (js_shl b3 24))"

definition writeByte :: "sim_state \<Rightarrow> int \<Rightarrow> int \<Rightarrow> sim_state" where
  "writeByte st addr val = st\<lparr>memory := (memory st)(addr \<mapsto> js_and val 255)\<rparr>"

definition writeHalfWord :: "sim_state \<Rightarrow> int \<Rightarrow> int \<Rightarrow> sim_state" where
  "writeHalfWord st addr val =
     st\<lparr>memory := (memory st)(addr \<mapsto> js_and val 255,
                                  addr + 1 \<mapsto> js_and (js_sar val 8) 255)\<rparr>"

definition writeWord :: "sim_state \<Rightarrow> int \<Rightarrow> int \<Rightarrow> sim_state" where
  "writeWord st addr val =
     st\<lparr>memory := (memory st)(addr \<mapsto> js_and val 255,
                                  addr + 1 \<mapsto> js_and (js_sar val 8) 255,
                                  addr + 2 \<mapsto> js_and (js_sar val 16) 255,
                                  addr + 3 \<mapsto> js_and (js_sar val 24) 255)\<rparr>"

definition setPC :: "sim_state \<Rightarrow> int \<Rightarrow> sim_state" where
  "setPC st v = st\<lparr>pc := v\<rparr>"

definition incrementPC :: "sim_state \<Rightarrow> sim_state" where
  "incrementPC st = st\<lparr>pc := pc st + 1\<rparr>"

definition halt :: "sim_state \<Rightarrow> sim_state" where
  "halt st = st\<lparr>halted := True\<rparr>"

text \<open>
  The handlers. \<open>sim.pc\<close> is the adapter's copy of \<open>state.pc\<close> taken when \<open>execute\<close> is
  entered; no handler changes the PC before it reads \<open>sim.pc\<close>, so the model reads
  \<open>pc st\<close> of the state the handler was given.
\<close>

definition executeADD :: "decoded \<Rightarrow> sim_state \<Rightarrow> sim_state" where
  "executeADD d st =
     (let rs1Val = getRegister st (d_rs1 d); rs2Val = getRegister st (d_rs2 d);
          result = to_int32 (rs1Val + rs2Val)
      in incrementPC (setRegister st (d_rd d) result))"

definition executeSUB :: "decoded \<Rightarrow> sim_state \<Rightarrow> sim_state" where
  "executeSUB d st =
     (let rs1Val = getRegister st (d_rs1 d); rs2Val = getRegister st (d_rs2 d);
          result = to_int32 (rs1Val - rs2Val)
      in incrementPC (setRegister st (d_rd d) result))"

definition executeSLL :: "decoded \<Rightarrow> sim_state \<Rightarrow> sim_state" where
  "executeSLL d st =
     (let rs1Val = getRegister st (d_rs1 d); rs2Val = getRegister st (d_rs2 d);
          shamt = js_and rs2Val 31;
          result = to_int32 (js_shl rs1Val shamt)
      in incrementPC (setRegister st (d_rd d) result))"

definition executeSLT :: "decoded \<Rightarrow> sim_state \<Rightarrow> sim_state" where
  "executeSLT d st =
     (let rs1Val = getRegister st (d_rs1 d); rs2Val = getRegister st (d_rs2 d);
          result = (if rs1Val < rs2Val then 1 else 0)
      in incrementPC (setRegister st (d_rd d) result))"

definition executeSLTU :: "decoded \<Rightarrow> sim_state \<Rightarrow> sim_state" where
  "executeSLTU d st =
     (let rs1Val = to_uint32 (getRegister st (d_rs1 d));
          rs2Val = to_uint32 (getRegister st (d_rs2 d));
          result = (if rs1Val < rs2Val then 1 else 0)
      in incrementPC (setRegister st (d_rd d) result))"

definition executeXOR :: "decoded \<Rightarrow> sim_state \<Rightarrow> sim_state" where
  "executeXOR d st =
     (let rs1Val = getRegister st (d_rs1 d); rs2Val = getRegister st (d_rs2 d);
          result = to_int32 (js_xor rs1Val rs2Val)
      in incrementPC (setRegister st (d_rd d) result))"

definition executeSRL :: "decoded \<Rightarrow> sim_state \<Rightarrow> sim_state" where
  "executeSRL d st =
     (let rs1Val = to_uint32 (getRegister st (d_rs1 d)); rs2Val = getRegister st (d_rs2 d);
          shamt = js_and rs2Val 31;
          result = to_int32 (js_shr rs1Val shamt)
      in incrementPC (setRegister st (d_rd d) result))"

definition executeSRA :: "decoded \<Rightarrow> sim_state \<Rightarrow> sim_state" where
  "executeSRA d st =
     (let rs1Val = getRegister st (d_rs1 d); rs2Val = getRegister st (d_rs2 d);
          shamt = js_and rs2Val 31;
          result = to_int32 (js_sar rs1Val shamt)
      in incrementPC (setRegister st (d_rd d) result))"

definition executeOR :: "decoded \<Rightarrow> sim_state \<Rightarrow> sim_state" where
  "executeOR d st =
     (let rs1Val = getRegister st (d_rs1 d); rs2Val = getRegister st (d_rs2 d);
          result = to_int32 (js_or rs1Val rs2Val)
      in incrementPC (setRegister st (d_rd d) result))"

definition executeAND :: "decoded \<Rightarrow> sim_state \<Rightarrow> sim_state" where
  "executeAND d st =
     (let rs1Val = getRegister st (d_rs1 d); rs2Val = getRegister st (d_rs2 d);
          result = to_int32 (js_and rs1Val rs2Val)
      in incrementPC (setRegister st (d_rd d) result))"

definition executeADDI :: "decoded \<Rightarrow> sim_state \<Rightarrow> sim_state" where
  "executeADDI d st =
     (let rs1Val = getRegister st (d_rs1 d);
          result = to_int32 (rs1Val + d_imm d)
      in incrementPC (setRegister st (d_rd d) result))"

definition executeSLTI :: "decoded \<Rightarrow> sim_state \<Rightarrow> sim_state" where
  "executeSLTI d st =
     (let rs1Val = getRegister st (d_rs1 d);
          result = (if rs1Val < d_imm d then 1 else 0)
      in incrementPC (setRegister st (d_rd d) result))"

definition executeSLTIU :: "decoded \<Rightarrow> sim_state \<Rightarrow> sim_state" where
  "executeSLTIU d st =
     (let rs1Val = to_uint32 (getRegister st (d_rs1 d));
          imm = to_uint32 (d_imm d);
          result = (if rs1Val < imm then 1 else 0)
      in incrementPC (setRegister st (d_rd d) result))"

definition executeXORI :: "decoded \<Rightarrow> sim_state \<Rightarrow> sim_state" where
  "executeXORI d st =
     (let rs1Val = getRegister st (d_rs1 d);
          result = to_int32 (js_xor rs1Val (d_imm d))
      in incrementPC (setRegister st (d_rd d) result))"

definition executeORI :: "decoded \<Rightarrow> sim_state \<Rightarrow> sim_state" where
  "executeORI d st =
     (let rs1Val = getRegister st (d_rs1 d);
          result = to_int32 (js_or rs1Val (d_imm d))
      in incrementPC (setRegister st (d_rd d) result))"

definition executeANDI :: "decoded \<Rightarrow> sim_state \<Rightarrow> sim_state" where
  "executeANDI d st =
     (let rs1Val = getRegister st (d_rs1 d);
          result = to_int32 (js_and rs1Val (d_imm d))
      in incrementPC (setRegister st (d_rd d) result))"

text \<open>\<^verbatim>\<open>decoded.shamt || (decoded.imm & 0x1F)\<close>: a shift amount of 0 is falsy.\<close>

definition shamt_of :: "decoded \<Rightarrow> int" where
  "shamt_of d =
     (case d_shamt d of
        Some s \<Rightarrow> (if s \<noteq> 0 then s else js_and (d_imm d) 31)
      | None \<Rightarrow> js_and (d_imm d) 31)"

definition executeSLLI :: "decoded \<Rightarrow> sim_state \<Rightarrow> sim_state" where
  "executeSLLI d st =
     (let rs1Val = getRegister st (d_rs1 d);
          shamt = shamt_of d;
          result = to_int32 (js_shl rs1Val shamt)
      in incrementPC (setRegister st (d_rd d) result))"

definition executeSRLI :: "decoded \<Rightarrow> sim_state \<Rightarrow> sim_state" where
  "executeSRLI d st =
     (let rs1Val = to_uint32 (getRegister st (d_rs1 d));
          shamt = shamt_of d;
          result = to_int32 (js_shr rs1Val shamt)
      in incrementPC (setRegister st (d_rd d) result))"

definition executeSRAI :: "decoded \<Rightarrow> sim_state \<Rightarrow> sim_state" where
  "executeSRAI d st =
     (let rs1Val = getRegister st (d_rs1 d);
          shamt = shamt_of d;
          result = to_int32 (js_sar rs1Val shamt)
      in incrementPC (setRegister st (d_rd d) result))"

definition executeLB :: "decoded \<Rightarrow> sim_state \<Rightarrow> sim_state" where
  "executeLB d st =
     (let rs1Val = getRegister st (d_rs1 d);
          address = to_int32 (rs1Val + d_imm d);
          val = readByte st address
      in incrementPC (setRegister st (d_rd d) val))"

definition executeLH :: "decoded \<Rightarrow> sim_state \<Rightarrow> sim_state" where
  "executeLH d st =
     (let rs1Val = getRegister st (d_rs1 d);
          address = to_int32 (rs1Val + d_imm d);
          val = readHalfWord st address
      in incrementPC (setRegister st (d_rd d) val))"

definition executeLW :: "decoded \<Rightarrow> sim_state \<Rightarrow> sim_state" where
  "executeLW d st =
     (let rs1Val = getRegister st (d_rs1 d);
          address = to_int32 (rs1Val + d_imm d);
          val = readWord st address
      in incrementPC (setRegister st (d_rd d) val))"

definition executeLBU :: "decoded \<Rightarrow> sim_state \<Rightarrow> sim_state" where
  "executeLBU d st =
     (let rs1Val = getRegister st (d_rs1 d);
          address = to_int32 (rs1Val + d_imm d);
          val = readByteUnsigned st address
      in incrementPC (setRegister st (d_rd d) val))"

definition executeLHU :: "decoded \<Rightarrow> sim_state \<Rightarrow> sim_state" where
  "executeLHU d st =
     (let rs1Val = getRegister st (d_rs1 d);
          address = to_int32 (rs1Val + d_imm d);
          val = readHalfWordUnsigned st address
      in incrementPC (setRegister st (d_rd d) val))"

definition executeSB :: "decoded \<Rightarrow> sim_state \<Rightarrow> sim_state" where
  "executeSB d st =
     (let rs1Val = getRegister st (d_rs1 d); rs2Val = getRegister st (d_rs2 d);
          address = to_int32 (rs1Val + d_imm d)
      in incrementPC (writeByte st address (js_and rs2Val 255)))"

definition executeSH :: "decoded \<Rightarrow> sim_state \<Rightarrow> sim_state" where
  "executeSH d st =
     (let rs1Val = getRegister st (d_rs1 d); rs2Val = getRegister st (d_rs2 d);
          address = to_int32 (rs1Val + d_imm d)
      in incrementPC (writeHalfWord st address (js_and rs2Val 65535)))"

definition executeSW :: "decoded \<Rightarrow> sim_state \<Rightarrow> sim_state" where
  "executeSW d st =
     (let rs1Val = getRegister st (d_rs1 d); rs2Val = getRegister st (d_rs2 d);
          address = to_int32 (rs1Val + d_imm d)
      in incrementPC (writeWord st address rs2Val))"

text \<open>Branches: \<open>Math.floor(decoded.imm / 4)\<close> is \<open>d_imm d div 4\<close>.\<close>

definition executeBEQ :: "decoded \<Rightarrow> sim_state \<Rightarrow> sim_state" where
  "executeBEQ d st =
     (let rs1Val = getRegister st (d_rs1 d); rs2Val = getRegister st (d_rs2 d)
      in if rs1Val = rs2Val then setPC st (pc st + d_imm d div 4) else incrementPC st)"

definition executeBNE :: "decoded \<Rightarrow> sim_state \<Rightarrow> sim_state" where
  "executeBNE d st =
     (let rs1Val = getRegister st (d_rs1 d); rs2Val = getRegister st (d_rs2 d)
      in if rs1Val \<noteq> rs2Val then setPC st (pc st + d_imm d div 4) else incrementPC st)"

definition executeBLT :: "decoded \<Rightarrow> sim_state \<Rightarrow> sim_state" where
  "executeBLT d st =
     (let rs1Val = getRegister st (d_rs1 d); rs2Val = getRegister st (d_rs2 d)
      in if rs1Val < rs2Val then setPC st (pc st + d_imm d div 4) else incrementPC st)"

definition executeBGE :: "decoded \<Rightarrow> sim_state \<Rightarrow> sim_state" where
  "executeBGE d st =
     (let rs1Val = getRegister st (d_rs1 d); rs2Val = getRegister st (d_rs2 d)
      in if rs1Val \<ge> rs2Val then setPC st (pc st + d_imm d div 4) else incrementPC st)"

definition executeBLTU :: "decoded \<Rightarrow> sim_state \<Rightarrow> sim_state" where
  "executeBLTU d st =
     (let rs1Val = to_uint32 (getRegister st (d_rs1 d)); rs2Val = to_uint32 (getRegister st (d_rs2 d))
      in if rs1Val < rs2Val then setPC st (pc st + d_imm d div 4) else incrementPC st)"

definition executeBGEU :: "decoded \<Rightarrow> sim_state \<Rightarrow> sim_state" where
  "executeBGEU d st =
     (let rs1Val = to_uint32 (getRegister st (d_rs1 d)); rs2Val = to_uint32 (getRegister st (d_rs2 d))
      in if rs1Val \<ge> rs2Val then setPC st (pc st + d_imm d div 4) else incrementPC st)"

definition executeJAL :: "decoded \<Rightarrow> sim_state \<Rightarrow> sim_state" where
  "executeJAL d st =
     (let returnAddress = pc st + 1;
          st1 = setRegister st (d_rd d) returnAddress;
          offset = d_imm d div 4
      in setPC st1 (pc st + offset))"

definition executeJALR :: "decoded \<Rightarrow> sim_state \<Rightarrow> sim_state" where
  "executeJALR d st =
     (let rs1Val = getRegister st (d_rs1 d);
          returnAddress = pc st + 1;
          targetPC = (if rs1Val < 1000 then rs1Val + d_imm d div 4
                      else js_and (rs1Val + d_imm d) (js_not 1) div 4);
          st1 = setRegister st (d_rd d) returnAddress
      in setPC st1 targetPC)"

definition executeLUI :: "decoded \<Rightarrow> sim_state \<Rightarrow> sim_state" where
  "executeLUI d st = incrementPC (setRegister st (d_rd d) (d_imm d))"

definition executeAUIPC :: "decoded \<Rightarrow> sim_state \<Rightarrow> sim_state" where
  "executeAUIPC d st =
     (let pcBytes = pc st * 4;
          result = to_int32 (pcBytes + d_imm d)
      in incrementPC (setRegister st (d_rd d) result))"

definition executeHLT :: "decoded \<Rightarrow> sim_state \<Rightarrow> sim_state" where
  "executeHLT d st = halt st"

text \<open>
  \<open>execute\<close>: the test \<^verbatim>\<open>state.registers && Array.isArray(state.registers)\<close> holds for the
  controller's state object (and for an instance of the \<open>Simulator\<close> class, whose
  \<open>registers\<close> is an array as well), so the handlers run on the adapter above. The
  \<open>default\<close> branch of the switch is not reachable: the opcode is one of the 38 cases.
  No operation of the adapter throws, so \<open>execute\<close> always returns.
\<close>

definition execute :: "decoded \<Rightarrow> sim_state \<Rightarrow> sim_state" where
  "execute d st =
     (case d_opcode d of
        ADD \<Rightarrow> executeADD d st | SUB \<Rightarrow> executeSUB d st | SLL \<Rightarrow> executeSLL d st
      | SLT \<Rightarrow> executeSLT d st | SLTU \<Rightarrow> executeSLTU d st | XOR_op \<Rightarrow> executeXOR d st
      | SRL \<Rightarrow> executeSRL d st | SRA \<Rightarrow> executeSRA d st | OR_op \<Rightarrow> executeOR d st
      | AND_op \<Rightarrow> executeAND d st
      | ADDI \<Rightarrow> executeADDI d st | SLTI \<Rightarrow> executeSLTI d st | SLTIU \<Rightarrow> executeSLTIU d st
      | XORI \<Rightarrow> executeXORI d st | ORI \<Rightarrow> executeORI d st | ANDI \<Rightarrow> executeANDI d st
      | SLLI \<Rightarrow> executeSLLI d st | SRLI \<Rightarrow> executeSRLI d st | SRAI \<Rightarrow> executeSRAI d st
      | LB \<Rightarrow> executeLB d st | LH \<Rightarrow> executeLH d st | LW \<Rightarrow> executeLW d st
      | LBU \<Rightarrow> executeLBU d st | LHU \<Rightarrow> executeLHU d st
      | SB \<Rightarrow> executeSB d st | SH \<Rightarrow> executeSH d st | SW \<Rightarrow> executeSW d st
      | BEQ \<Rightarrow> executeBEQ d st | BNE \<Rightarrow> executeBNE d st | BLT \<Rightarrow> executeBLT d st
      | BGE \<Rightarrow> executeBGE d st | BLTU \<Rightarrow> executeBLTU d st | BGEU \<Rightarrow> executeBGEU d st
      | JAL \<Rightarrow> executeJAL d st | JALR \<Rightarrow> executeJALR d st
      | LUI \<Rightarrow> executeLUI d st | AUIPC \<Rightarrow> executeAUIPC d st
      | HLT \<Rightarrow> executeHLT d st)"

section \<open>The Simulator class (models/Simulator.js)\<close>

text \<open>
  The class keeps its memory in an \<open>ArrayBuffer\<close> of 1024 * 1024 bytes and checks every
  access in \<open>validateAddress\<close>. The fields \<open>cycleCount\<close> and \<open>executionHistory\<close> are
  diagnostics that no method modelled here reads; they are left out of the record.
\<close>

record simulator =
  s_registers :: "int list"
  s_memory :: "int \<Rightarrow> 8 word"
  s_pc :: int
  s_instructions :: "instruction list"
  s_halted :: bool

definition byteLength :: int where
  "byteLength = 1024 * 1024"

definition Simulator_getRegister :: "simulator \<Rightarrow> int \<Rightarrow> error + int" where
  "Simulator_getRegister s reg =
     (if reg < 0 \<or> reg > 31 then Inl (InvalidRegisterIndex reg)
      else Inr (if reg = 0 then 0 else s_registers s ! nat reg))"

definition Simulator_setRegister :: "simulator \<Rightarrow> int \<Rightarrow> int \<Rightarrow> error + simulator" where
  "Simulator_setRegister s reg v =
     (if reg < 0 \<or> reg > 31 then Inl (InvalidRegisterIndex reg)
      else if reg \<noteq> 0 then Inr (s\<lparr>s_registers := (s_registers s)[nat reg := to_int32 v]\<rparr>)
      else Inr s)"

definition validateAddress :: "int \<Rightarrow> int \<Rightarrow> error + unit" where
  "validateAddress address sz =
     (if address < 0 \<or> address + sz > byteLength then Inl (MemoryAccessViolation address)
      else if sz = 2 \<and> js_rem address 2 \<noteq> 0 then Inl (UnalignedHalfWord address)
      else if sz = 4 \<and> js_rem address 4 \<noteq> 0 then Inl (UnalignedWord address)
      else Inr ())"

text \<open>
  The \<open>DataView\<close> setters store the low bytes of the value, little-endian; the getters
  read them back, \<open>getInt16\<close> and \<open>getInt32\<close> as two's-complement numbers.
\<close>

definition Simulator_writeByte :: "simulator \<Rightarrow> int \<Rightarrow> int \<Rightarrow> error + simulator" where
  "Simulator_writeByte s address v =
     seq (validateAddress address 1)
       (Inr (s\<lparr>s_memory := (s_memory s)(address := word_of_int (js_and v 255))\<rparr>))"

definition Simulator_writeHalfWord :: "simulator \<Rightarrow> int \<Rightarrow> int \<Rightarrow> error + simulator" where
  "Simulator_writeHalfWord s address v =
     seq (validateAddress address 2)
       (let x = js_and v 65535 in
        Inr (s\<lparr>s_memory := (s_memory s)(address := word_of_int x,
                                          address + 1 := word_of_int (x div 256))\<rparr>))"

definition Simulator_writeWord :: "simulator \<Rightarrow> int \<Rightarrow> int \<Rightarrow> error + simulator" where
  "Simulator_writeWord s address v =
     seq (validateAddress address 4)
       (let x = to_int32 v in
        Inr (s\<lparr>s_memory := (s_memory s)(address := word_of_int x,
                                          address + 1 := word_of_int (x div 256),
                                          address + 2 := word_of_int (x div 65536),
                                          address + 3 := word_of_int (x div 16777216))\<rparr>))"

definition Simulator_readByte :: "simulator \<Rightarrow> int \<Rightarrow> error + int" where
  "Simulator_readByte s address =
     seq (validateAddress address 1) (Inr (uint (s_memory s address)))"

definition Simulator_readByteUnsigned :: "simulator \<Rightarrow> int \<Rightarrow> error + int" where
  "Simulator_readByteUnsigned s address =
     seq (validateAddress address 1) (Inr (uint (s_memory s address)))"

definition Simulator_readHalfWordUnsigned :: "simulator \<Rightarrow> int \<Rightarrow> error + int" where
  "Simulator_readHalfWordUnsigned s address =
     seq (validateAddress address 2)
       (Inr (uint (s_memory s address) + 256 * uint (s_memory s (address + 1))))"

definition Simulator_readHalfWord :: "simulator \<Rightarrow> int \<Rightarrow> error + int" where
  "Simulator_readHalfWord s address =
     seq (validateAddress address 2)
       (let u = uint (s_memory s address) + 256 * uint (s_memory s (address + 1))
        in Inr (if u > 32767 then u - 65536 else u))"

definition Simulator_readWord :: "simulator \<Rightarrow> int \<Rightarrow> error + int" where
  "Simulator_readWord s address =
     seq (validateAddress address 4)
       (Inr (to_int32 (uint (s_memory s address) + 256 * uint (s_memory s (address + 1))
                       + 65536 * uint (s_memory s (address + 2))
                       + 16777216 * uint (s_memory s (address + 3)))))"

text \<open>\<open>fetchInstruction\<close> returns \<open>null\<close> (\<open>None\<close>) and halts when the PC is out of range.\<close>

definition fetchInstruction :: "simulator \<Rightarrow> instruction option \<times> simulator" where
  "fetchInstruction s =
     (if s_pc s < 0 \<or> s_pc s \<ge> int (length (s_instructions s))
      then (None, s\<lparr>s_halted := True\<rparr>)
      else (Some (s_instructions s ! nat (s_pc s)), s))"

section \<open>Parser (parser.js)\<close>

text \<open>
  A JavaScript string is a sequence of code units; the model's \<open>char\<close> is a code unit
  below 256. The white space of \<open>trim\<close> and of the regular expressions' \<^verbatim>\<open>\s\<close> is, in
  that range, tab, line feed, vertical tab, form feed, carriage return, space and the
  no-break space; \<^verbatim>\<open>\w\<close> is a letter, a digit or the underscore. \<open>toUpperCase\<close> and
  \<open>toLowerCase\<close> are modelled on the letters a to z; the results are only compared with
  the keys of the two tables below, which no other character can produce.
\<close>

definition is_space :: "char \<Rightarrow> bool" where
  "is_space c = (of_char c \<in> {9, 10, 11, 12, 13, 32, 160 :: nat})"

definition is_line_terminator :: "char \<Rightarrow> bool" where
  "is_line_terminator c = (of_char c \<in> {10, 13 :: nat})"

definition is_word_char :: "char \<Rightarrow> bool" where
  "is_word_char c =
     (let n = of_char c :: nat
      in (48 \<le> n \<and> n \<le> 57) \<or> (65 \<le> n \<and> n \<le> 90) \<or> n = 95 \<or> (97 \<le> n \<and> n \<le> 122))"

definition upper_char :: "char \<Rightarrow> char" where
  "upper_char c =
     (let n = of_char c :: nat in if 97 \<le> n \<and> n \<le> 122 then char_of (n - 32) else c)"

definition lower_char :: "char \<Rightarrow> char" where
  "lower_char c =
     (let n = of_char c :: nat in if 65 \<le> n \<and> n \<le> 90 then char_of (n + 32) else c)"

definition toUpperCase :: "string \<Rightarrow> string" where
  "toUpperCase s = map upper_char s"

definition toLowerCase :: "string \<Rightarrow> string" where
  "toLowerCase s = map lower_char s"

definition trim :: "string \<Rightarrow> string" where
  "trim s = rev (dropWhile is_space (rev (dropWhile is_space s)))"

text \<open>\<open>s.split(c)\<close> on a one-character separator: always at least one piece.\<close>

fun split_on :: "char \<Rightarrow> string \<Rightarrow> string list" where
  "split_on c [] = [[]]"
| "split_on c (x # xs) =
     (if x = c then [] # split_on c xs
      else (let r = split_on c xs in (x # hd r) # tl r))"

text \<open>\<^verbatim>\<open>line.split(/[\s,()]+/).filter(part => part.length > 0)\<close>: the maximal runs of
  characters that are neither white space nor a comma nor a parenthesis.\<close>

definition is_sep :: "char \<Rightarrow> bool" where
  "is_sep c = (is_space c \<or> c = CHR '','' \<or> c = CHR ''('' \<or> c = CHR '')'')"

fun tokens_acc :: "string \<Rightarrow> string \<Rightarrow> string list" where
  "tokens_acc cur [] = (if cur = [] then [] else [cur])"
| "tokens_acc cur (c # cs) =
     (if is_sep c then (if cur = [] then tokens_acc [] cs else cur # tokens_acc [] cs)
      else tokens_acc (cur @ [c]) cs)"

definition tokens :: "string \<Rightarrow> string list" where
  "tokens line = tokens_acc [] line"

definition cleanLine :: "string \<Rightarrow> string" where
  "cleanLine line = trim (takeWhile (\<lambda>c. c \<noteq> CHR ''#'') line)"

text \<open>
  \<^verbatim>\<open>line.match(/^(\w+):\s*(.*)/)\<close> gives the label and the rest of the line (the dot does
  not match a line terminator); \<^verbatim>\<open>line.match(/^\w+:\s*$/)\<close> recognises a line that holds
  a label only.
\<close>

definition label_match :: "string \<Rightarrow> (string \<times> string) option" where
  "label_match line =
     (let name = takeWhile is_word_char line in
      case dropWhile is_word_char line of
        [] \<Rightarrow> None
      | c # after \<Rightarrow>
          if name \<noteq> [] \<and> c = CHR '':''
          then Some (name, takeWhile (\<lambda>x. \<not> is_line_terminator x) (dropWhile is_space after))
          else None)"

definition label_only :: "string \<Rightarrow> bool" where
  "label_only line =
     (let name = takeWhile is_word_char line in
      case dropWhile is_word_char line of
        [] \<Rightarrow> False
      | c # after \<Rightarrow> name \<noteq> [] \<and> c = CHR '':'' \<and> list_all is_space after)"

text \<open>
  The label table is a plain object. An assignment to its property \<open>__proto__\<close> with a
  number creates no property, and once a label named \<open>hasOwnProperty\<close> is stored, the call
  \<^verbatim>\<open>this.labels.hasOwnProperty(...)\<close> finds a number where it expects the method and
  throws a \<open>TypeError\<close>.
\<close>

type_synonym labels = "string \<rightharpoonup> int"

definition set_label :: "labels \<Rightarrow> string \<Rightarrow> int \<Rightarrow> labels" where
  "set_label ls name i = (if name = ''__proto__'' then ls else ls(name \<mapsto> i))"

definition label_lookup :: "labels \<Rightarrow> string \<Rightarrow> error + int option" where
  "label_lookup ls x = (if ls ''hasOwnProperty'' \<noteq> None then Inl TypeError else Inr (ls x))"

definition registerMap :: "(string \<times> int) list" where
  "registerMap =
     [(''zero'', 0), (''x0'', 0), (''ra'', 1), (''x1'', 1), (''sp'', 2), (''x2'', 2),
      (''gp'', 3), (''x3'', 3), (''tp'', 4), (''x4'', 4), (''t0'', 5), (''x5'', 5),
      (''t1'', 6), (''x6'', 6), (''t2'', 7), (''x7'', 7), (''s0'', 8), (''fp'', 8),
      (''x8'', 8), (''s1'', 9), (''x9'', 9), (''a0'', 10), (''x10'', 10), (''a1'', 11),
      (''x11'', 11), (''a2'', 12), (''x12'', 12), (''a3'', 13), (''x13'', 13),
      (''a4'', 14), (''x14'', 14), (''a5'', 15), (''x15'', 15), (''a6'', 16),
      (''x16'', 16), (''a7'', 17), (''x17'', 17), (''s2'', 18), (''x18'', 18),
      (''s3'', 19), (''x19'', 19), (''s4'', 20), (''x20'', 20), (''s5'', 21),
      (''x21'', 21), (''s6'', 22), (''x22'', 22), (''s7'', 23), (''x23'', 23),
      (''s8'', 24), (''x24'', 24), (''s9'', 25), (''x25'', 25), (''s10'', 26),
      (''x26'', 26), (''s11'', 27), (''x27'', 27), (''t3'', 28), (''x28'', 28),
      (''t4'', 29), (''x29'', 29), (''t5'', 30), (''x30'', 30), (''t6'', 31),
      (''x31'', 31)]"

definition parseRegister :: "string \<Rightarrow> error + int" where
  "parseRegister reg =
     (case map_of registerMap (toLowerCase reg) of
        Some n \<Rightarrow> Inr n
      | None \<Rightarrow> Inl (InvalidRegister reg))"

definition instructionFormats :: "(string \<times> opcode) list" where
  "instructionFormats =
     [(''ADD'', ADD), (''SUB'', SUB), (''SLL'', SLL), (''SLT'', SLT), (''SLTU'', SLTU),
      (''XOR'', XOR_op), (''SRL'', SRL), (''SRA'', SRA), (''OR'', OR_op),
      (''AND'', AND_op), (''ADDI'', ADDI), (''SLTI'', SLTI), (''SLTIU'', SLTIU),
      (''XORI'', XORI), (''ORI'', ORI), (''ANDI'', ANDI), (''SLLI'', SLLI),
      (''SRLI'', SRLI), (''SRAI'', SRAI), (''LB'', LB), (''LH'', LH), (''LW'', LW),
      (''LBU'', LBU), (''LHU'', LHU), (''SB'', SB), (''SH'', SH), (''SW'', SW),
      (''BEQ'', BEQ), (''BNE'', BNE), (''BLT'', BLT), (''BGE'', BGE), (''BLTU'', BLTU),
      (''BGEU'', BGEU), (''JAL'', JAL), (''JALR'', JALR), (''LUI'', LUI),
      (''AUIPC'', AUIPC), (''HLT'', HLT)]"

text \<open>
  \<open>parseInt\<close>: leading white space, an optional sign, for radix 16 an optional \<open>0x\<close>, then
  the longest run of digits of the radix; \<open>None\<close> is \<open>NaN\<close>. The result is exact here;
  JavaScript rounds beyond 2^53, far outside every range that is accepted below.
\<close>

definition digit_val :: "char \<Rightarrow> nat" where
  "digit_val c =
     (let n = of_char c :: nat in
      if 48 \<le> n \<and> n \<le> 57 then n - 48
      else if 97 \<le> n \<and> n \<le> 122 then n - 87
      else if 65 \<le> n \<and> n \<le> 90 then n - 55
      else 36)"

definition parse_digits :: "nat \<Rightarrow> string \<Rightarrow> int option" where
  "parse_digits radix s =
     (let ds = takeWhile (\<lambda>c. digit_val c < radix) s in
      if ds = [] then None
      else Some (foldl (\<lambda>acc c. acc * int radix + int (digit_val c)) 0 ds))"

definition js_parseInt :: "string \<Rightarrow> nat \<Rightarrow> int option" where
  "js_parseInt str radix =
     (let s0 = dropWhile is_space str;
          neg = (take 1 s0 = ''-'');
          s1 = (if take 1 s0 = ''-'' \<or> take 1 s0 = ''+'' then drop 1 s0 else s0);
          s2 = (if radix = 16 \<and> (take 2 s1 = ''0x'' \<or> take 2 s1 = ''0X'') then drop 2 s1 else s1)
      in map_option (\<lambda>v. if neg then - v else v) (parse_digits radix s2))"

definition immediate_value :: "string \<Rightarrow> int option" where
  "immediate_value tok =
     (if take 2 tok = ''0x'' \<or> take 2 tok = ''0X'' then js_parseInt tok 16
      else if take 2 tok = ''0b'' \<or> take 2 tok = ''0B'' then js_parseInt (drop 2 tok) 2
      else if take 1 tok = ''-'' then js_parseInt tok 10
      else js_parseInt tok 10)"

definition parseImmediate :: "string \<Rightarrow> int \<Rightarrow> error + int" where
  "parseImmediate tok bits =
     (case immediate_value tok of
        None \<Rightarrow> Inl (InvalidImmediate tok)
      | Some v \<Rightarrow>
          (let maxValue = js_shl 1 (bits - 1) - 1;
               minValue = - js_shl 1 (bits - 1)
           in if v > maxValue \<or> v < minValue then Inl (ImmediateRange v bits) else Inr v))"

definition bind :: "error + 'a \<Rightarrow> ('a \<Rightarrow> error + 'b) \<Rightarrow> error + 'b" where
  "bind m f = (case m of Inl e \<Rightarrow> Inl e | Inr x \<Rightarrow> f x)"

definition parseRFormat :: "instruction \<Rightarrow> string list \<Rightarrow> error + instruction" where
  "parseRFormat ins parts =
     (if length parts \<noteq> 4 then Inl (OperandCount (opcode ins))
      else bind (parseRegister (parts ! 1)) (\<lambda>r.
           bind (parseRegister (parts ! 2)) (\<lambda>a.
           bind (parseRegister (parts ! 3)) (\<lambda>b.
           Inr (ins\<lparr>rd := Some r, rs1 := Some a, rs2 := Some b\<rparr>)))))"

definition parseIFormat :: "instruction \<Rightarrow> string list \<Rightarrow> error + instruction" where
  "parseIFormat ins parts =
     (if length parts \<noteq> 4 then Inl (OperandCount (opcode ins))
      else bind (parseRegister (parts ! 1)) (\<lambda>r.
           bind (parseRegister (parts ! 2)) (\<lambda>a.
           bind (parseImmediate (parts ! 3) 12) (\<lambda>i.
           Inr (ins\<lparr>rd := Some r, rs1 := Some a, imm := Some i\<rparr>)))))"

definition parseLoadFormat :: "instruction \<Rightarrow> string list \<Rightarrow> error + instruction" where
  "parseLoadFormat ins parts =
     (if length parts = 3 then Inl (RequiresFormat (opcode ins))
      else if length parts = 4 then
           bind (parseRegister (parts ! 1)) (\<lambda>r.
           bind (parseRegister (parts ! 2)) (\<lambda>a.
           bind (parseImmediate (parts ! 3) 12) (\<lambda>i.
           Inr (ins\<lparr>rd := Some r, rs1 := Some a, imm := Some i\<rparr>))))
      else if length parts = 5 then
           bind (parseRegister (parts ! 1)) (\<lambda>r.
           bind (parseImmediate (parts ! 2) 12) (\<lambda>i.
           bind (parseRegister (parts ! 3)) (\<lambda>a.
           Inr (ins\<lparr>rd := Some r, imm := Some i, rs1 := Some a\<rparr>))))
      else Inl (InvalidFormat (opcode ins)))"

definition parseStoreFormat :: "instruction \<Rightarrow> string list \<Rightarrow> error + instruction" where
  "parseStoreFormat ins parts =
     (if length parts = 4 then
           bind (parseRegister (parts ! 1)) (\<lambda>b.
           bind (parseRegister (parts ! 2)) (\<lambda>a.
           bind (parseImmediate (parts ! 3) 12) (\<lambda>i.
           Inr (ins\<lparr>rs2 := Some b, rs1 := Some a, imm := Some i\<rparr>))))
      else if length parts = 5 then
           bind (parseRegister (parts ! 1)) (\<lambda>b.
           bind (parseImmediate (parts ! 2) 12) (\<lambda>i.
           bind (parseRegister (parts ! 3)) (\<lambda>a.
           Inr (ins\<lparr>rs2 := Some b, imm := Some i, rs1 := Some a\<rparr>))))
      else Inl (InvalidFormat (opcode ins)))"

text \<open>The operand of a branch or of JAL: a defined label, else a literal immediate.\<close>

definition label_or_immediate ::
  "labels \<Rightarrow> instruction \<Rightarrow> string \<Rightarrow> int \<Rightarrow> error + instruction" where
  "label_or_immediate ls ins tok bits =
     bind (label_lookup ls tok) (\<lambda>found.
       case found of
         Some target \<Rightarrow> Inr (ins\<lparr>label := Some tok, imm := Some ((target - index ins) * 4)\<rparr>)
       | None \<Rightarrow> bind (parseImmediate tok bits) (\<lambda>i. Inr (ins\<lparr>imm := Some i\<rparr>)))"

definition parseBranchFormat ::
  "labels \<Rightarrow> instruction \<Rightarrow> string list \<Rightarrow> error + instruction" where
  "parseBranchFormat ls ins parts =
     (if length parts \<noteq> 4 then Inl (OperandCount (opcode ins))
      else bind (parseRegister (parts ! 1)) (\<lambda>a.
           bind (parseRegister (parts ! 2)) (\<lambda>b.
           label_or_immediate ls (ins\<lparr>rs1 := Some a, rs2 := Some b\<rparr>) (parts ! 3) 13)))"

definition parseJALFormat ::
  "labels \<Rightarrow> instruction \<Rightarrow> string list \<Rightarrow> error + instruction" where
  "parseJALFormat ls ins parts =
     (if length parts = 2 then label_or_immediate ls (ins\<lparr>rd := Some 1\<rparr>) (parts ! 1) 21
      else if length parts = 3 then
           bind (parseRegister (parts ! 1)) (\<lambda>r.
           label_or_immediate ls (ins\<lparr>rd := Some r\<rparr>) (parts ! 2) 21)
      else Inl (OperandCount (opcode ins)))"

definition parseJALRFormat :: "instruction \<Rightarrow> string list \<Rightarrow> error + instruction" where
  "parseJALRFormat ins parts =
     (if length parts = 2 then
           bind (parseRegister (parts ! 1)) (\<lambda>a.
           Inr (ins\<lparr>rd := Some 1, rs1 := Some a, imm := Some 0\<rparr>))
      else if length parts = 3 then
           bind (parseRegister (parts ! 1)) (\<lambda>r.
           bind (parseRegister (parts ! 2)) (\<lambda>a.
           Inr (ins\<lparr>rd := Some r, rs1 := Some a, imm := Some 0\<rparr>)))
      else if length parts = 4 then
           bind (parseRegister (parts ! 1)) (\<lambda>r.
           bind (parseRegister (parts ! 2)) (\<lambda>a.
           bind (parseImmediate (parts ! 3) 12) (\<lambda>i.
           Inr (ins\<lparr>rd := Some r, rs1 := Some a, imm := Some i\<rparr>))))
      else Inl (InvalidFormat (opcode ins)))"

definition parseUFormat :: "instruction \<Rightarrow> string list \<Rightarrow> error + instruction" where
  "parseUFormat ins parts =
     (if length parts \<noteq> 3 then Inl (OperandCount (opcode ins))
      else bind (parseRegister (parts ! 1)) (\<lambda>r.
           bind (parseImmediate (parts ! 2) 20) (\<lambda>i.
           Inr (ins\<lparr>rd := Some r, imm := Some i\<rparr>))))"

definition parseInstruction ::
  "labels \<Rightarrow> string \<Rightarrow> int \<Rightarrow> nat \<Rightarrow> error + instruction" where
  "parseInstruction ls line idx lnum =
     (case tokens line of
        [] \<Rightarrow> Inl EmptyInstruction
      | p # ps \<Rightarrow>
          (case map_of instructionFormats (toUpperCase p) of
             None \<Rightarrow> Inl (UnknownInstruction (toUpperCase p))
           | Some opc \<Rightarrow>
               (let ins = \<lparr>opcode = opc, format = opcode_type opc, index = idx,
                           lineNum = lnum, original = line, rd = None, rs1 = None,
                           rs2 = None, imm = None, label = None\<rparr>;
                    parts = p # ps
                in case opcode_type opc of
                     FmtR \<Rightarrow> parseRFormat ins parts
                   | FmtI \<Rightarrow> parseIFormat ins parts
                   | FmtIL \<Rightarrow> parseLoadFormat ins parts
                   | FmtS \<Rightarrow> parseStoreFormat ins parts
                   | FmtSB \<Rightarrow> parseBranchFormat ls ins parts
                   | FmtUJ \<Rightarrow> parseJALFormat ls ins parts
                   | FmtJALR \<Rightarrow> parseJALRFormat ins parts
                   | FmtU \<Rightarrow> parseUFormat ins parts
                   | FmtHLT \<Rightarrow> Inr ins)))"

text \<open>
  \<open>parse\<close>. The first pass binds each label to the index of the next instruction and,
  where an instruction follows the label on its line, replaces the line by that
  instruction; the second pass parses the lines that are left.
\<close>

definition first_pass_line :: "string \<Rightarrow> int \<Rightarrow> labels \<Rightarrow> string \<times> int \<times> labels" where
  "first_pass_line l idx ls =
     (let line = cleanLine l in
      if line = [] then (l, idx, ls)
      else if CHR '':'' \<in> set line then
        (case label_match line of
           Some (labelName, r) \<Rightarrow>
             (let ls1 = set_label ls labelName idx; restOfLine = trim r
              in if restOfLine \<noteq> [] then (restOfLine, idx + 1, ls1) else (l, idx, ls1))
         | None \<Rightarrow> (l, idx + 1, ls))
      else (l, idx + 1, ls))"

fun first_pass :: "string list \<Rightarrow> int \<Rightarrow> labels \<Rightarrow> string list \<times> labels" where
  "first_pass [] idx ls = ([], ls)"
| "first_pass (l # rest) idx ls =
     (case first_pass_line l idx ls of
        (l1, idx1, ls1) \<Rightarrow>
          (case first_pass rest idx1 ls1 of (out, ls2) \<Rightarrow> (l1 # out, ls2)))"

definition second_pass_line ::
  "labels \<Rightarrow> string \<Rightarrow> int \<Rightarrow> nat \<Rightarrow> error + instruction option" where
  "second_pass_line ls l idx lnum =
     (let line = cleanLine l in
      if line = [] then Inr None
      else if label_only line then Inr None
      else
        (let instructionLine =
               (if CHR '':'' \<in> set line then trim (split_on CHR '':'' line ! 1) else line)
         in if instructionLine = [] then Inr None
            else (case parseInstruction ls instructionLine idx (lnum + 1) of
                    Inl e \<Rightarrow> Inl (AtLine (lnum + 1) e)
                  | Inr ins \<Rightarrow> Inr (Some ins))))"

fun second_pass :: "labels \<Rightarrow> string list \<Rightarrow> nat \<Rightarrow> int \<Rightarrow> error + instruction list" where
  "second_pass ls [] lnum idx = Inr []"
| "second_pass ls (l # rest) lnum idx =
     (case second_pass_line ls l idx lnum of
        Inl e \<Rightarrow> Inl e
      | Inr None \<Rightarrow> second_pass ls rest (lnum + 1) idx
      | Inr (Some ins) \<Rightarrow>
          (case second_pass ls rest (lnum + 1) (idx + 1) of
             Inl e \<Rightarrow> Inl e
           | Inr inss \<Rightarrow> Inr (ins # inss)))"

definition parse :: "string \<Rightarrow> error + instruction list" where
  "parse code =
     (case first_pass (split_on (CHR 10) code) 0 Map.empty of
        (lines, ls) \<Rightarrow> second_pass ls lines 0 0)"

section \<open>Controller (controllers/simulatorController.js)\<close>

text \<open>
  \<open>initial_state\<close> is the object each of \<open>executeProgram\<close> and \<open>reset\<close> assigns to the
  module's variable \<open>simulatorState\<close>; \<open>state_of\<close> is the \<open>state\<close> property of a successful
  response, with \<^verbatim>\<open>memory.slice(0, 256)\<close>.
\<close>

definition initial_state :: sim_state where
  "initial_state =
     \<lparr>registers = replicate 32 0,
      memory = (\<lambda>a. if 0 \<le> a \<and> a < 1024 then Some 0 else None),
      pc = 0, halted = False, instructions = Some []\<rparr>"

definition slice256 :: "(int \<rightharpoonup> int) \<Rightarrow> (int \<rightharpoonup> int)" where
  "slice256 m = (\<lambda>a. if 0 \<le> a \<and> a < 256 then m a else None)"

definition state_of :: "sim_state \<Rightarrow> machine" where
  "state_of st =
     \<lparr>registers = registers st, memory = slice256 (memory st), pc = pc st,
      halted = halted st\<rparr>"

text \<open>
  The guard and the body that the loop of \<open>executeProgram\<close> and the \<open>if\<close> of
  \<open>stepExecution\<close> share. \<open>instructions[pc]\<close> under a negative \<open>pc\<close> is \<open>undefined\<close>, and
  \<open>decode\<close> throws on it.
\<close>

definition running :: "instruction list \<Rightarrow> sim_state \<Rightarrow> bool" where
  "running ins st = (\<not> halted st \<and> pc st < int (length ins))"

definition fetch_decode_execute :: "instruction list \<Rightarrow> sim_state \<Rightarrow> error + sim_state" where
  "fetch_decode_execute ins st =
     (if pc st < 0 then Inl MissingOpcode
      else case decode (ins ! nat (pc st)) of
             Inl e \<Rightarrow> Inl e
           | Inr d \<Rightarrow> Inr (execute d st))"

text \<open>
  The \<open>while\<close> loop of \<open>executeProgram\<close> may run forever; \<open>None\<close> is the run that does
  not return. A result carries the error that ended the loop, if any, and the state
  object as the loop left it.
\<close>

partial_function (option) run_loop ::
  "instruction list \<Rightarrow> sim_state \<Rightarrow> (error option \<times> sim_state) option" where
  "run_loop ins st =
     (if running ins st then
        (case fetch_decode_execute ins st of
           Inl e \<Rightarrow> Some (Some e, st)
         | Inr st' \<Rightarrow> run_loop ins st')
      else Some (None, st))"

text \<open>
  The two request handlers: each returns the response (\<open>Inl\<close> is the status 400 with
  the error's message) and the new value of \<open>simulatorState\<close>.
\<close>

definition executeProgram :: "string \<Rightarrow> ((error + machine) \<times> sim_state) option" where
  "executeProgram code =
     (case parse code of
        Inl e \<Rightarrow> Some (Inl e, initial_state)
      | Inr ins \<Rightarrow>
          (case run_loop ins (initial_state\<lparr>instructions := Some ins\<rparr>) of
             None \<Rightarrow> None
           | Some (Some e, st) \<Rightarrow> Some (Inl e, st)
           | Some (None, st) \<Rightarrow> Some (Inr (state_of st), st)))"

definition stepExecution ::
  "string \<Rightarrow> sim_state option \<Rightarrow> sim_state \<Rightarrow> (error + machine) \<times> sim_state" where
  "stepExecution code currentState simulatorState =
     (let st0 = (case currentState of Some cs \<Rightarrow> cs | None \<Rightarrow> simulatorState) in
      case instructions st0 of
        None \<Rightarrow> (Inl TypeError, st0)
      | Some cached \<Rightarrow>
          (case (if cached = [] then parse code else Inr cached) of
             Inl e \<Rightarrow> (Inl e, st0)
           | Inr ins \<Rightarrow>
               (let st1 = st0\<lparr>instructions := Some ins\<rparr> in
                if running ins st1 then
                  (case fetch_decode_execute ins st1 of
                     Inl e \<Rightarrow> (Inl e, st1)
                   | Inr st2 \<Rightarrow> (Inr (state_of st2), st2))
                else (Inr (state_of st1), st1))))"

definition reset :: "machine \<times> sim_state" where
  "reset = (state_of initial_state, initial_state)"

text \<open>
  The loop of \<open>executeProgram\<close> unrolled: \<open>loop_body\<close> is one pass through the \<open>while\<close>
  statement (the state is left as it is once the guard fails), \<open>run_n ins n st\<close> the
  state after at most \<open>n\<close> passes, or the error that ended them.
\<close>

definition loop_body :: "instruction list \<Rightarrow> sim_state \<Rightarrow> error + sim_state" where
  "loop_body ins st = (if running ins st then fetch_decode_execute ins st else Inr st)"

fun run_n :: "instruction list \<Rightarrow> nat \<Rightarrow> sim_state \<Rightarrow> error + sim_state" where
  "run_n ins 0 st = Inr st"
| "run_n ins (Suc n) st =
     (case run_n ins n st of Inl e \<Rightarrow> Inl e | Inr s \<Rightarrow> loop_body ins s)"

text \<open>
  A client that steps through a program. Its first Step request, sent after a Reset,
  carries no state; each later request carries the state object of the previous
  response. \<open>as_returned\<close> sends that object back as it is, without an \<open>instructions\<close>
  property; \<open>with_instructions\<close> adds \<^verbatim>\<open>instructions: []\<close> to it, as \<open>handleStep\<close> of the
  front end (App.js) does. A client stops at the first error response.
\<close>

definition as_returned :: "machine \<Rightarrow> sim_state" where
  "as_returned r =
     \<lparr>registers = registers r, memory = memory r, pc = pc r, halted = halted r,
      instructions = None\<rparr>"

definition with_instructions :: "machine \<Rightarrow> sim_state" where
  "with_instructions r =
     \<lparr>registers = registers r, memory = memory r, pc = pc r, halted = halted r,
      instructions = Some []\<rparr>"

fun step_requests ::
  "(machine \<Rightarrow> sim_state) \<Rightarrow> string \<Rightarrow> nat \<Rightarrow> (error + machine) \<times> sim_state" where
  "step_requests client code 0 = (Inr (fst reset), snd reset)"
| "step_requests client code (Suc n) =
     (case step_requests client code n of
        (Inl e, g) \<Rightarrow> (Inl e, g)
      | (Inr r, g) \<Rightarrow> stepExecution code (if n = 0 then None else Some (client r)) g)"

section \<open>Definitions that follow the specification's words\<close>

text \<open>
  The specification's "modulo 2^32 and reinterpreted as signed": the residue of \<open>x\<close>
  modulo 2^32, read as a two's-complement number. The executor's own arithmetic is
  \<open>to_int32\<close> above; \<open>wrap32\<close> is what it is compared with.
\<close>

definition wrap32 :: "int \<Rightarrow> int" where
  "wrap32 x = (let m = x mod 2 ^ 32 in if m < 2 ^ 31 then m else m - 2 ^ 32)"

text \<open>
  The specification's "arithmetic results": the exact integer that an instruction is
  meant to compute from its register and immediate operands, before any wrap-around,
  with the operands read as the executor reads them. ADD, SUB and ADDI add or subtract;
  AUIPC adds the decoded upper immediate to the byte address \<open>PC * 4\<close>; a left shift
  multiplies by a power of two, an arithmetic right shift divides the signed value and a
  logical right shift the unsigned value, rounding down, the shift amount being taken
  modulo 32; the bitwise operations work on the two's-complement digits; a comparison
  gives 1 or 0, the unsigned ones on the residues modulo 2^32; LUI gives the decoded
  upper immediate. Loads, stores, branches, jumps and HLT compute no result of this
  kind.
\<close>

definition exact_result :: "decoded \<Rightarrow> sim_state \<Rightarrow> int option" where
  "exact_result d st =
     (let a = getRegister st (d_rs1 d); b = getRegister st (d_rs2 d); i = d_imm d
      in case d_opcode d of
           ADD \<Rightarrow> Some (a + b)
         | SUB \<Rightarrow> Some (a - b)
         | ADDI \<Rightarrow> Some (a + i)
         | AUIPC \<Rightarrow> Some (pc st * 4 + i)
         | LUI \<Rightarrow> Some i
         | SLL \<Rightarrow> Some (a * 2 ^ nat (b mod 32))
         | SLLI \<Rightarrow> Some (a * 2 ^ nat (shamt_of d mod 32))
         | SRA \<Rightarrow> Some (wrap32 a div 2 ^ nat (b mod 32))
         | SRAI \<Rightarrow> Some (wrap32 a div 2 ^ nat (shamt_of d mod 32))
         | SRL \<Rightarrow> Some (a mod 2 ^ 32 div 2 ^ nat (b mod 32))
         | SRLI \<Rightarrow> Some (a mod 2 ^ 32 div 2 ^ nat (shamt_of d mod 32))
         | AND_op \<Rightarrow> Some (a AND b)
         | OR_op \<Rightarrow> Some (a OR b)
         | XOR_op \<Rightarrow> Some (a XOR b)
         | ANDI \<Rightarrow> Some (a AND i)
         | ORI \<Rightarrow> Some (a OR i)
         | XORI \<Rightarrow> Some (a XOR i)
         | SLT \<Rightarrow> Some (if a < b then 1 else 0)
         | SLTI \<Rightarrow> Some (if a < i then 1 else 0)
         | SLTU \<Rightarrow> Some (if a mod 2 ^ 32 < b mod 2 ^ 32 then 1 else 0)
         | SLTIU \<Rightarrow> Some (if a mod 2 ^ 32 < i mod 2 ^ 32 then 1 else 0)
         | _ \<Rightarrow> None)"

text \<open>A value that a signed 32-bit register can hold.\<close>

definition signed32 :: "int \<Rightarrow> bool" where
  "signed32 v \<longleftrightarrow> - 2147483648 \<le> v \<and> v \<le> 2147483647"

text \<open>
  A memory none of whose bytes outside the first 256, the part that a response carries,
  reads as non-zero.
\<close>

definition in_window :: "(int \<rightharpoonup> int) \<Rightarrow> bool" where
  "in_window m = (\<forall>a. a < 0 \<or> 256 \<le> a \<longrightarrow> mem_get m a = 0)"

text \<open>
  The specification's immediate widths: 12 bits for the I, load, store and JALR formats,
  13 for a branch, 21 for JAL and 20 for the U format; \<open>in_signed_range bits v\<close> is the
  signed range of that width. \<open>immediate_operand\<close> is the operand, among the tokens after
  the mnemonic, that the format's parser reads as the immediate, for each operand count
  the parser accepts.
\<close>

definition immediate_bits :: "format \<Rightarrow> int option" where
  "immediate_bits f =
     (case f of FmtI \<Rightarrow> Some 12 | FmtIL \<Rightarrow> Some 12 | FmtS \<Rightarrow> Some 12 | FmtSB \<Rightarrow> Some 13
      | FmtUJ \<Rightarrow> Some 21 | FmtJALR \<Rightarrow> Some 12 | FmtU \<Rightarrow> Some 20
      | FmtR \<Rightarrow> None | FmtHLT \<Rightarrow> None)"

definition in_signed_range :: "int \<Rightarrow> int \<Rightarrow> bool" where
  "in_signed_range bits v \<longleftrightarrow> - (2 ^ nat (bits - 1)) \<le> v \<and> v \<le> 2 ^ nat (bits - 1) - 1"

definition immediate_operand :: "format \<Rightarrow> string list \<Rightarrow> string option" where
  "immediate_operand f ops =
     (case (f, ops) of
        (FmtI, [_, _, t]) \<Rightarrow> Some t
      | (FmtIL, [_, _, t]) \<Rightarrow> Some t
      | (FmtIL, [_, t, _, _]) \<Rightarrow> Some t
      | (FmtS, [_, _, t]) \<Rightarrow> Some t
      | (FmtS, [_, t, _, _]) \<Rightarrow> Some t
      | (FmtSB, [_, _, t]) \<Rightarrow> Some t
      | (FmtUJ, [t]) \<Rightarrow> Some t
      | (FmtUJ, [_, t]) \<Rightarrow> Some t
      | (FmtJALR, [_, _, t]) \<Rightarrow> Some t
      | (FmtU, [_, t]) \<Rightarrow> Some t
      | _ \<Rightarrow> None)"

section \<open>A simulation relation for stepping\<close>

text \<open>
  Two state objects that no instruction can tell apart and whose responses agree: the
  same registers, program counter and halted flag, the same value read at every
  address, and a value stored under each of the first 256 addresses.
\<close>

definition sim_rel :: "sim_state \<Rightarrow> sim_state \<Rightarrow> bool" where
  "sim_rel s t \<longleftrightarrow>
     registers s = registers t \<and> pc s = pc t \<and> halted s = halted t
     \<and> (\<forall>a. mem_get (memory s) a = mem_get (memory t) a)
     \<and> (\<forall>a. 0 \<le> a \<and> a < 256 \<longrightarrow> memory s a \<noteq> None \<and> memory t a \<noteq> None)"


section \<open>What the two passes of the parser do with a line\<close>

text \<open>
  The effect of the first pass on one line does not depend on the index and the label
  table it is given, beyond storing the index under the label: \<open>pass1_text\<close> is the text
  the pass leaves in \<open>lines[lineNum]\<close>, \<open>counted\<close> says that the pass advances
  \<open>instructionIndex\<close> on the line, \<open>defined_label\<close> is the label the line binds. Whether
  the second pass hands a line to \<open>parseInstruction\<close>, and with which text, does not
  depend on its other arguments either: \<open>emits\<close> and \<open>instruction_text\<close>. A line is
  \<open>dropped\<close> when the first pass counts it as an instruction and the second pass skips
  what the first pass left of it. \<open>label_table\<close> is the table \<open>this.labels\<close> after the
  first pass, and \<open>instructions_before j ins\<close> the number of parsed instructions that
  stand on the first \<open>j\<close> lines of the source (\<open>lineNum\<close> counts from 1).
\<close>

definition pass1_text :: "string \<Rightarrow> string" where
  "pass1_text l = fst (first_pass_line l 0 Map.empty)"

definition counted :: "string \<Rightarrow> bool" where
  "counted l \<longleftrightarrow> fst (snd (first_pass_line l 0 Map.empty)) = 1"

definition defined_label :: "string \<Rightarrow> string option" where
  "defined_label l = map_option fst (label_match (cleanLine l))"

definition emits :: "string \<Rightarrow> bool" where
  "emits l \<longleftrightarrow> second_pass_line Map.empty l 0 0 \<noteq> Inr None"

definition instruction_text :: "string \<Rightarrow> string" where
  "instruction_text l =
     (let line = cleanLine l
      in if CHR '':'' \<in> set line then trim (split_on CHR '':'' line ! 1) else line)"


definition label_table :: "string \<Rightarrow> labels" where
  "label_table code = snd (first_pass (split_on (CHR 10) code) 0 Map.empty)"

section \<open>Example programs\<close>

text \<open>
  The scenario of the specification's section 8, with the instruction list the parser
  gives for it and the state in which its run ends.
\<close>

definition scenario_source :: string where
  "scenario_source =
     ''ADDI x1, x0, 10'' @ [CHR 10] @ ''ADDI x2, x0, 20'' @ [CHR 10]
     @ ''ADD x3, x1, x2'' @ [CHR 10] @ ''SW x3, x0, 100'' @ [CHR 10] @ ''HLT''"

definition scenario_program :: "instruction list" where
  "scenario_program =
     [\<lparr>opcode = ADDI, format = FmtI, index = 0, lineNum = 1,
       original = ''ADDI x1, x0, 10'', rd = Some 1, rs1 = Some 0, rs2 = None,
       imm = Some 10, label = None\<rparr>,
      \<lparr>opcode = ADDI, format = FmtI, index = 1, lineNum = 2,
       original = ''ADDI x2, x0, 20'', rd = Some 2, rs1 = Some 0, rs2 = None,
       imm = Some 20, label = None\<rparr>,
      \<lparr>opcode = ADD, format = FmtR, index = 2, lineNum = 3,
       original = ''ADD x3, x1, x2'', rd = Some 3, rs1 = Some 1, rs2 = Some 2,
       imm = None, label = None\<rparr>,
      \<lparr>opcode = SW, format = FmtS, index = 3, lineNum = 4,
       original = ''SW x3, x0, 100'', rd = None, rs1 = Some 0, rs2 = Some 3,
       imm = Some 100, label = None\<rparr>,
      \<lparr>opcode = HLT, format = FmtHLT, index = 4, lineNum = 5, original = ''HLT'',
       rd = None, rs1 = None, rs2 = None, imm = None, label = None\<rparr>]"

definition scenario_final :: sim_state where
  "scenario_final =
     \<lparr>registers = (replicate 32 0)[1 := 10, 2 := 20, 3 := 30],
      memory = (\<lambda>a. if 0 \<le> a \<and> a < 1024 then Some 0 else None)
                 (100 \<mapsto> 30, 101 \<mapsto> 0, 102 \<mapsto> 0, 103 \<mapsto> 0),
      pc = 4, halted = True, instructions = Some scenario_program\<rparr>"

text \<open>A program that stores a word beyond the first 256 bytes and loads it again.\<close>

definition far_store_source :: string where
  "far_store_source =
     ''ADDI x1, x0, 7'' @ [CHR 10] @ ''SW x1, x0, 300'' @ [CHR 10]
     @ ''LW x2, x0, 300'' @ [CHR 10] @ ''HLT''"

definition far_store_program :: "instruction list" where
  "far_store_program =
     [\<lparr>opcode = ADDI, format = FmtI, index = 0, lineNum = 1,
       original = ''ADDI x1, x0, 7'', rd = Some 1, rs1 = Some 0, rs2 = None,
       imm = Some 7, label = None\<rparr>,
      \<lparr>opcode = SW, format = FmtS, index = 1, lineNum = 2,
       original = ''SW x1, x0, 300'', rd = None, rs1 = Some 0, rs2 = Some 1,
       imm = Some 300, label = None\<rparr>,
      \<lparr>opcode = LW, format = FmtIL, index = 2, lineNum = 3,
       original = ''LW x2, x0, 300'', rd = Some 2, rs1 = Some 0, rs2 = None,
       imm = Some 300, label = None\<rparr>,
      \<lparr>opcode = HLT, format = FmtHLT, index = 3, lineNum = 4, original = ''HLT'',
       rd = None, rs1 = None, rs2 = None, imm = None, label = None\<rparr>]"

text \<open>
  A program whose stores are a word at address 2, a half-word at address 9 and a word
  at address 2000, past the end of the controller's 1024-element memory array.
\<close>

definition unaligned_source :: string where
  "unaligned_source =
     ''ADDI x1, x0, 7'' @ [CHR 10] @ ''SW x1, x0, 2'' @ [CHR 10]
     @ ''SH x1, x0, 9'' @ [CHR 10] @ ''SW x1, x0, 2000'' @ [CHR 10] @ ''HLT''"

definition unaligned_program :: "instruction list" where
  "unaligned_program =
     [\<lparr>opcode = ADDI, format = FmtI, index = 0, lineNum = 1,
       original = ''ADDI x1, x0, 7'', rd = Some 1, rs1 = Some 0, rs2 = None,
       imm = Some 7, label = None\<rparr>,
      \<lparr>opcode = SW, format = FmtS, index = 1, lineNum = 2,
       original = ''SW x1, x0, 2'', rd = None, rs1 = Some 0, rs2 = Some 1,
       imm = Some 2, label = None\<rparr>,
      \<lparr>opcode = SH, format = FmtS, index = 2, lineNum = 3,
       original = ''SH x1, x0, 9'', rd = None, rs1 = Some 0, rs2 = Some 1,
       imm = Some 9, label = None\<rparr>,
      \<lparr>opcode = SW, format = FmtS, index = 3, lineNum = 4,
       original = ''SW x1, x0, 2000'', rd = None, rs1 = Some 0, rs2 = Some 1,
       imm = Some 2000, label = None\<rparr>,
      \<lparr>opcode = HLT, format = FmtHLT, index = 4, lineNum = 5, original = ''HLT'',
       rd = None, rs1 = None, rs2 = None, imm = None, label = None\<rparr>]"




text \<open>A program whose second line carries a label, HLT in lower case, operands and a
  comment.\<close>

definition hlt_source :: string where
  "hlt_source = ''ADDI x1, x0, 1'' @ [CHR 10] @ ''end: hlt x1, 99 (bogus)  # stop''"

text \<open>
  A program of 1025 lines: a branch to the label \<open>far\<close>, 1023 lines \<open>HLT\<close>, and the line
  \<open>far: HLT\<close>, so that the label stands 1024 instructions after the branch.
  \<open>far_branch_record\<close> is the record the parser builds for the branch.
\<close>

definition far_branch_source :: string where
  "far_branch_source =
     ''BEQ x0, x0, far'' @ [CHR 10] @ concat (replicate 1023 (''HLT'' @ [CHR 10]))
     @ ''far: HLT''"

definition far_branch_record :: instruction where
  "far_branch_record =
     \<lparr>opcode = BEQ, format = FmtSB, index = 0, lineNum = 1,
      original = ''BEQ x0, x0, far'', rd = None, rs1 = Some 0, rs2 = Some 0,
      imm = Some 4096, label = Some ''far''\<rparr>"
section \<open>Properties of the integer operators\<close>

lemma to_int32_wrap32: "to_int32 x = wrap32 x"
proof -
  let ?m = "x mod 2 ^ 32"
  have m: "0 \<le> ?m" "?m < 2 ^ 32" by simp_all
  have e: "(x + 2 ^ 31) mod 2 ^ 32 = (?m + 2 ^ 31) mod 2 ^ 32"
    by (simp add: mod_add_left_eq)
  show ?thesis
  proof (cases "?m < 2 ^ 31")
    case True
    then have "(?m + 2 ^ 31) mod 2 ^ 32 = ?m + 2 ^ 31"
      using m by (simp add: mod_pos_pos_trivial)
    then show ?thesis
      using True e by (simp add: to_int32_def int_word_sint wrap32_def)
  next
    case False
    then have "(?m + 2 ^ 31 - 2 ^ 32) mod 2 ^ 32 = ?m + 2 ^ 31 - 2 ^ 32"
      using m by (simp add: mod_pos_pos_trivial)
    moreover have "(?m + 2 ^ 31 - 2 ^ 32) mod 2 ^ 32 = (?m + 2 ^ 31) mod 2 ^ 32"
      by (metis mod_diff_right_eq mod_self diff_zero)
    ultimately show ?thesis
      using False e by (simp add: to_int32_def int_word_sint wrap32_def)
  qed
qed

lemma wrap32_range: "- 2147483648 \<le> wrap32 x \<and> wrap32 x \<le> 2147483647"
proof -
  have "0 \<le> x mod 2 ^ 32" "x mod 2 ^ 32 < 2 ^ 32" by simp_all
  then show ?thesis by (auto simp: wrap32_def Let_def)
qed

lemma js_rem_2: "js_rem x 2 \<noteq> 0 \<longleftrightarrow> odd x"
proof (cases "x < 0")
  case True
  then show ?thesis unfolding js_rem_def by (simp add: sgn_if) presburger
next
  case False
  then show ?thesis unfolding js_rem_def by (simp add: sgn_if) presburger
qed

lemma even_sint32: "even (sint (w :: 32 word)) \<longleftrightarrow> even w"
proof -
  have "bit (sint w) 0 \<longleftrightarrow> bit w 0" by (simp add: bit_sint_iff)
  then show ?thesis by (simp add: bit_0)
qed

lemma even_word_of_int32: "even (word_of_int a :: 32 word) \<longleftrightarrow> even a"
proof -
  have "bit (word_of_int a :: 32 word) 0 \<longleftrightarrow> bit a 0" by (simp add: bit_word_of_int_iff)
  then show ?thesis by (simp add: bit_0)
qed

lemma even_js_or: "even (js_or a b) \<longleftrightarrow> even a \<and> even b"
  by (simp add: js_or_def even_sint32 even_or_iff even_word_of_int32)

lemma even_js_and: "even (js_and a b) \<longleftrightarrow> even a \<or> even b"
  by (simp add: js_and_def even_sint32 even_and_iff even_word_of_int32)

lemma js_shl_values:
  "js_shl (- 1) 13 = - 8192" "js_shl 1 13 = 8192" "js_shl 1 12 = 4096"
  "js_shl (- 1) 21 = - 2097152" "js_shl 1 21 = 2097152" "js_shl 1 20 = 1048576"
  "js_shl (- 1) 12 = - 4096" "js_shl 1 11 = 2048" "js_shl 1 19 = 524288"
  by code_simp+

lemma even_signExtend_13: "even (signExtend i 13) \<longleftrightarrow> even i"
  by (simp add: signExtend_def Let_def even_js_or even_js_and js_shl_values)

lemma even_signExtend_21: "even (signExtend i 21) \<longleftrightarrow> even i"
  by (simp add: signExtend_def Let_def even_js_or even_js_and js_shl_values)

text \<open>The shifts as multiplication and division, and the shift count as a residue.\<close>

lemma to_int32_idem: "to_int32 (to_int32 x) = to_int32 x"
  by (simp add: to_int32_def)

lemma to_uint32_mod: "to_uint32 x = x mod 2 ^ 32"
  by (simp add: to_uint32_def uint_word_of_int take_bit_eq_mod)

lemma to_int32_to_uint32: "to_int32 (to_uint32 x) = to_int32 x"
  by (simp add: to_int32_def to_uint32_def)

lemma js_shl_to_int32: "js_shl a n = to_int32 (a * 2 ^ shift_count n)"
  by (simp add: js_shl_def to_int32_def push_bit_eq_mult)

lemma js_sar_div: "js_sar a n = to_int32 a div 2 ^ shift_count n"
  by (simp add: js_sar_def to_int32_def sint_signed_drop_bit_eq drop_bit_eq_div)

lemma js_shr_div: "js_shr a n = to_uint32 a div 2 ^ shift_count n"
proof -
  have "uint (drop_bit (shift_count n) (word_of_int a :: 32 word))
          = drop_bit (shift_count n) (take_bit 32 (uint (word_of_int a :: 32 word)))"
    by (simp add: unsigned_drop_bit_eq)
  also have "\<dots> = uint (word_of_int a :: 32 word) div 2 ^ shift_count n"
    by (simp add: drop_bit_eq_div take_bit_eq_mod uint_word_of_int)
  finally show ?thesis by (simp add: js_shr_def to_uint32_def)
qed

lemma to_int32_shr:
  "to_int32 (js_shr (to_uint32 a) n) = to_int32 (a mod 2 ^ 32 div 2 ^ shift_count n)"
  by (simp add: js_shr_div to_uint32_mod)

lemma shift_count_mod: "shift_count n = nat (n mod 32)"
proof -
  have "n mod 2 ^ 32 mod 32 = n mod 32"
    by (rule mod_mod_cancel) simp
  then show ?thesis by (simp add: shift_count_def to_uint32_mod)
qed

lemma js_and_31: "js_and b 31 = b mod 32"
proof -
  have m: "(31 :: 32 word) = mask 5" by (simp add: mask_eq_exp_minus_1)
  have "(word_of_int b :: 32 word) AND 31 = word_of_int (take_bit 5 b)"
    unfolding m by (simp add: and_mask_wi)
  then have "js_and b 31 = sint (word_of_int (b mod 32) :: 32 word)"
    by (simp add: js_and_def take_bit_eq_mod)
  also have "\<dots> = b mod 32"
  proof -
    have "0 \<le> b mod 32" "b mod 32 < 32" by simp_all
    then show ?thesis
      by (simp add: to_int32_wrap32 [unfolded to_int32_def] wrap32_def Let_def)
  qed
  finally show ?thesis .
qed

lemma js_bitwise:
  "js_and a b = to_int32 (a AND b)" "js_or a b = to_int32 (a OR b)"
  "js_xor a b = to_int32 (a XOR b)"
  by (simp_all add: js_and_def js_or_def js_xor_def to_int32_def word_wi_log_defs)

lemma to_int32_and_31: "to_int32 (b AND 31) = b mod 32"
  using js_and_31 [of b] by (simp add: js_bitwise)

section \<open>Properties of the executor\<close>

lemmas handler_defs =
  executeADD_def executeSUB_def executeSLL_def executeSLT_def executeSLTU_def
  executeXOR_def executeSRL_def executeSRA_def executeOR_def executeAND_def
  executeADDI_def executeSLTI_def executeSLTIU_def executeXORI_def executeORI_def
  executeANDI_def executeSLLI_def executeSRLI_def executeSRAI_def
  executeLB_def executeLH_def executeLW_def executeLBU_def executeLHU_def
  executeSB_def executeSH_def executeSW_def
  executeBEQ_def executeBNE_def executeBLT_def executeBGE_def executeBLTU_def
  executeBGEU_def executeJAL_def executeJALR_def executeLUI_def executeAUIPC_def
  executeHLT_def

lemma pc_setRegister: "pc (setRegister st r v) = pc st"
  by (simp add: setRegister_def)

lemma pc_incrementPC: "pc (incrementPC st) = pc st + 1"
  by (simp add: incrementPC_def)

lemma pc_writes:
  "pc (writeByte st a v) = pc st" "pc (writeHalfWord st a v) = pc st"
  "pc (writeWord st a v) = pc st"
  by (simp_all add: writeByte_def writeHalfWord_def writeWord_def)

lemma registers_setRegister_0: "registers (setRegister st r v) ! 0 = registers st ! 0"
  by (simp add: setRegister_def)

lemma registers_other:
  "registers (incrementPC st) = registers st" "registers (setPC st p) = registers st"
  "registers (halt st) = registers st" "registers (writeByte st a v) = registers st"
  "registers (writeHalfWord st a v) = registers st"
  "registers (writeWord st a v) = registers st"
  by (simp_all add: incrementPC_def setPC_def halt_def writeByte_def writeHalfWord_def
      writeWord_def)

lemma execute_registers_0: "registers (execute d st) ! 0 = registers st ! 0"
  by (cases "d_opcode d")
    (simp_all add: execute_def handler_defs Let_def registers_other registers_setRegister_0)

lemma execute_rd_0: "d_rd d = 0 \<Longrightarrow> registers (execute d st) = registers st"
  by (cases "d_opcode d")
    (simp_all add: execute_def handler_defs Let_def registers_other setRegister_def)

text \<open>
  C3, as amended. For every decoded instruction whose opcode is neither a branch nor a
  jump, one execution leaves the program counter one instruction slot further, except
  for HLT, which sets the halted flag and leaves the program counter where it was.
\<close>

theorem execute_pc_advance:
  assumes "d_opcode d \<notin> {BEQ, BNE, BLT, BGE, BLTU, BGEU, JAL, JALR}"
  shows "pc (execute d st) = (if d_opcode d = HLT then pc st else pc st + 1)
         \<and> (d_opcode d = HLT \<longrightarrow> halted (execute d st))"
  using assms
  by (cases "d_opcode d")
    (simp_all add: execute_def handler_defs Let_def pc_setRegister pc_incrementPC pc_writes
      halt_def)

theorem execute_pc_advance_witness:
  "ADD \<notin> {BEQ, BNE, BLT, BGE, BLTU, BGEU, JAL, JALR}
   \<and> pc (execute \<lparr>d_opcode = ADD, d_type = FmtR, d_format = FmtR, d_index = 0, d_lineNum = 1,
                   d_original = ''ADD x3, x1, x2'', d_rd = 3, d_rs1 = 1, d_rs2 = 2, d_imm = 0,
                   d_shamt = None, d_label = None\<rparr> initial_state) = 1
   \<and> pc (execute \<lparr>d_opcode = HLT, d_type = FmtHLT, d_format = FmtHLT, d_index = 0,
                   d_lineNum = 1, d_original = ''HLT'', d_rd = 0, d_rs1 = 0, d_rs2 = 0,
                   d_imm = 0, d_shamt = None, d_label = None\<rparr> initial_state) = 0"
  using execute_pc_advance [of "\<lparr>d_opcode = ADD, d_type = FmtR, d_format = FmtR, d_index = 0,
                   d_lineNum = 1, d_original = ''ADD x3, x1, x2'', d_rd = 3, d_rs1 = 1,
                   d_rs2 = 2, d_imm = 0, d_shamt = None, d_label = None\<rparr>" initial_state]
        execute_pc_advance [of "\<lparr>d_opcode = HLT, d_type = FmtHLT, d_format = FmtHLT,
                   d_index = 0, d_lineNum = 1, d_original = ''HLT'', d_rd = 0, d_rs1 = 0,
                   d_rs2 = 0, d_imm = 0, d_shamt = None, d_label = None\<rparr>" initial_state]
  by (simp add: initial_state_def)

text \<open>
  C3 as stated fails on HLT, which is neither a branch nor a jump: the record that
  the parser builds for the line \<open>HLT\<close> decodes, and executing it on the initial state
  leaves the program counter at 0, not at 1.
\<close>

theorem execute_HLT_pc_counterexample:
  "decode \<lparr>opcode = HLT, format = FmtHLT, index = 0, lineNum = 1, original = ''HLT'',
           rd = None, rs1 = None, rs2 = None, imm = None, label = None\<rparr>
     = Inr \<lparr>d_opcode = HLT, d_type = FmtHLT, d_format = FmtHLT, d_index = 0, d_lineNum = 1,
            d_original = ''HLT'', d_rd = 0, d_rs1 = 0, d_rs2 = 0, d_imm = 0,
            d_shamt = None, d_label = None\<rparr>
   \<and> HLT \<notin> {BEQ, BNE, BLT, BGE, BLTU, BGEU, JAL, JALR}
   \<and> pc (execute \<lparr>d_opcode = HLT, d_type = FmtHLT, d_format = FmtHLT, d_index = 0,
                   d_lineNum = 1, d_original = ''HLT'', d_rd = 0, d_rs1 = 0, d_rs2 = 0,
                   d_imm = 0, d_shamt = None, d_label = None\<rparr> initial_state)
       \<noteq> pc initial_state + 1"
  by (simp add: decode_def execute_def executeHLT_def halt_def initial_state_def)

text \<open>
  C4. Register 0 never changes and always reads as 0: \<open>setRegister(0, v)\<close> is a no-op in
  the Simulator class and in the executor's adapter, \<open>getRegister(0)\<close> is 0 in both, no
  executed instruction changes element 0 of the register array, and an instruction with
  \<open>rd = 0\<close> leaves the whole array as it was.
\<close>

theorem register_zero_invariant:
  "Simulator_setRegister s 0 v = Inr s
   \<and> Simulator_getRegister s 0 = Inr 0
   \<and> setRegister st 0 v = st
   \<and> getRegister (setRegister st 0 v) 0 = 0
   \<and> getRegister (execute d st) 0 = 0
   \<and> registers (execute d st) ! 0 = registers st ! 0
   \<and> (d_rd d = 0 \<longrightarrow> registers (execute d st) = registers st)"
  by (simp add: Simulator_setRegister_def Simulator_getRegister_def setRegister_def
      getRegister_def execute_registers_0 execute_rd_0)

theorem register_zero_invariant_witness:
  "d_rd \<lparr>d_opcode = ADDI, d_type = FmtI, d_format = FmtI, d_index = 0, d_lineNum = 1,
         d_original = ''ADDI x0, x0, 5'', d_rd = 0, d_rs1 = 0, d_rs2 = 0, d_imm = 5,
         d_shamt = None, d_label = None\<rparr> = 0
   \<and> registers (execute \<lparr>d_opcode = ADDI, d_type = FmtI, d_format = FmtI, d_index = 0,
         d_lineNum = 1, d_original = ''ADDI x0, x0, 5'', d_rd = 0, d_rs1 = 0, d_rs2 = 0,
         d_imm = 5, d_shamt = None, d_label = None\<rparr> initial_state) = replicate 32 0"
  using register_zero_invariant [of undefined 0 initial_state
         "\<lparr>d_opcode = ADDI, d_type = FmtI, d_format = FmtI, d_index = 0,
         d_lineNum = 1, d_original = ''ADDI x0, x0, 5'', d_rd = 0, d_rs1 = 0, d_rs2 = 0,
         d_imm = 5, d_shamt = None, d_label = None\<rparr>"]
  by (simp add: initial_state_def)

lemma setRegister_to_int32: "setRegister st r (to_int32 v) = setRegister st r v"
  by (simp add: setRegister_def to_int32_idem)

text \<open>
  Each handler of an instruction that computes a result hands that result, or a number
  with the same 32-bit residue, to \<open>setRegister\<close> and advances the program counter.
\<close>

lemma executed_result:
  assumes "exact_result d st = Some x"
  shows "execute d st = incrementPC (setRegister st (d_rd d) x)"
  using assms
  by (cases "d_opcode d")
    (auto simp: exact_result_def execute_def executeADD_def executeSUB_def executeADDI_def
      executeAUIPC_def executeLUI_def executeSLL_def executeSLLI_def executeSRA_def
      executeSRAI_def executeSRL_def executeSRLI_def executeAND_def executeOR_def
      executeXOR_def executeANDI_def executeORI_def executeXORI_def executeSLT_def
      executeSLTI_def executeSLTU_def executeSLTIU_def Let_def setRegister_to_int32
      js_shl_to_int32 js_sar_div js_shr_div to_int32_and_31 shift_count_mod js_bitwise
      to_uint32_mod to_int32_wrap32 [symmetric])

lemma signed32_to_int32: "signed32 (to_int32 x)"
  using wrap32_range [of x] by (simp add: signed32_def to_int32_wrap32)

lemma signed32_setRegister:
  assumes "\<forall>v \<in> set (registers st). signed32 v"
  shows "\<forall>v \<in> set (registers (setRegister st r x)). signed32 v"
proof
  fix v assume "v \<in> set (registers (setRegister st r x))"
  then have "v \<in> insert (to_int32 x) (set (registers st))"
    using set_update_subset_insert [of "registers st" "nat r" "to_int32 x"]
    by (auto simp: setRegister_def split: if_splits)
  with assms signed32_to_int32 show "signed32 v" by auto
qed

text \<open>
  Whatever the instruction, every register holds a signed 32-bit value after it if every
  register did before: each write of the adapter's \<open>setRegister\<close> applies \<^verbatim>\<open>| 0\<close>.
\<close>

lemma execute_registers_signed32:
  assumes "\<forall>v \<in> set (registers st). signed32 v"
  shows "\<forall>v \<in> set (registers (execute d st)). signed32 v"
  using assms signed32_setRegister [OF assms]
  by (cases "d_opcode d")
    (simp_all add: execute_def handler_defs Let_def registers_other)

text \<open>
  C5. Every arithmetic result is the exact result with 32-bit two's-complement
  wrap-around. On a state with 32 registers, for register indices in 0..31 (what the
  decoder admits), each instruction that computes a result from its operands leaves in
  \<open>rd\<close> the exact result modulo 2^32, reinterpreted as a signed 32-bit number, so a value
  inside the signed 32-bit range; only register 0 reads as 0 whatever was written (C4).
  These instructions are the arithmetic ones, ADD, SUB, ADDI and AUIPC, the shifts SLL,
  SLLI, SRL, SRLI, SRA and SRAI, and also the bitwise operations, the comparisons and
  LUI. For ADD the exact result is the sum of the two source registers.
\<close>

theorem arithmetic_wraparound:
  assumes "exact_result d st = Some x" and "length (registers st) = 32"
    and "0 \<le> d_rd d \<and> d_rd d \<le> 31" and "0 \<le> d_rs1 d \<and> d_rs1 d \<le> 31"
    and "0 \<le> d_rs2 d \<and> d_rs2 d \<le> 31"
  shows "getRegister (execute d st) (d_rd d) = (if d_rd d = 0 then 0 else wrap32 x)
         \<and> - 2147483648 \<le> getRegister (execute d st) (d_rd d)
         \<and> getRegister (execute d st) (d_rd d) \<le> 2147483647"
proof (cases "d_rd d = 0")
  case True
  then show ?thesis by (simp add: getRegister_def)
next
  case False
  have inside: "nat (d_rd d) < length (registers st)"
    using assms(2,3) by auto
  have "getRegister (execute d st) (d_rd d) = to_int32 x"
    using assms(3) False inside
    by (simp add: executed_result [OF assms(1)] getRegister_def setRegister_def
        incrementPC_def)
  also have "\<dots> = wrap32 x"
    by (rule to_int32_wrap32)
  finally show ?thesis
    using wrap32_range False by simp
qed

text \<open>
  The specification's example, 0x7FFFFFFF + 1 = -2147483648 with ADD, and the same
  wrap-around with SUB, ADDI, AUIPC and SLL.
\<close>

theorem arithmetic_wraparound_witness:
  "getRegister
     (execute \<lparr>d_opcode = ADD, d_type = FmtR, d_format = FmtR, d_index = 0, d_lineNum = 1,
               d_original = ''ADD x3, x1, x2'', d_rd = 3, d_rs1 = 1, d_rs2 = 2, d_imm = 0,
               d_shamt = None, d_label = None\<rparr>
        (initial_state\<lparr>registers := (replicate 32 0)[1 := 2147483647, 2 := 1]\<rparr>)) 3
     = - 2147483648
   \<and> getRegister
     (execute \<lparr>d_opcode = SUB, d_type = FmtR, d_format = FmtR, d_index = 0, d_lineNum = 1,
               d_original = ''SUB x3, x1, x2'', d_rd = 3, d_rs1 = 1, d_rs2 = 2, d_imm = 0,
               d_shamt = None, d_label = None\<rparr>
        (initial_state\<lparr>registers := (replicate 32 0)[1 := - 2147483648, 2 := 1]\<rparr>)) 3
     = 2147483647
   \<and> getRegister
     (execute \<lparr>d_opcode = ADDI, d_type = FmtI, d_format = FmtI, d_index = 0, d_lineNum = 1,
               d_original = ''ADDI x3, x1, 1'', d_rd = 3, d_rs1 = 1, d_rs2 = 0, d_imm = 1,
               d_shamt = None, d_label = None\<rparr>
        (initial_state\<lparr>registers := (replicate 32 0)[1 := 2147483647]\<rparr>)) 3
     = - 2147483648
   \<and> getRegister
     (execute \<lparr>d_opcode = AUIPC, d_type = FmtU, d_format = FmtU, d_index = 0, d_lineNum = 1,
               d_original = ''AUIPC x3, 524287'', d_rd = 3, d_rs1 = 0, d_rs2 = 0,
               d_imm = 2147479552, d_shamt = None, d_label = None\<rparr>
        (initial_state\<lparr>pc := 1024\<rparr>)) 3
     = - 2147483648
   \<and> getRegister
     (execute \<lparr>d_opcode = SLL, d_type = FmtR, d_format = FmtR, d_index = 0, d_lineNum = 1,
               d_original = ''SLL x3, x1, x2'', d_rd = 3, d_rs1 = 1, d_rs2 = 2, d_imm = 0,
               d_shamt = None, d_label = None\<rparr>
        (initial_state\<lparr>registers := (replicate 32 0)[1 := 1, 2 := 31]\<rparr>)) 3
     = - 2147483648"
proof -
  let ?sll = "\<lparr>d_opcode = SLL, d_type = FmtR, d_format = FmtR, d_index = 0, d_lineNum = 1,
               d_original = ''SLL x3, x1, x2'', d_rd = 3, d_rs1 = 1, d_rs2 = 2, d_imm = 0,
               d_shamt = None, d_label = None\<rparr>"
  let ?s5 = "initial_state\<lparr>registers := (replicate 32 0)[1 := 1, 2 := 31]\<rparr>"
  let ?add = "\<lparr>d_opcode = ADD, d_type = FmtR, d_format = FmtR, d_index = 0, d_lineNum = 1,
               d_original = ''ADD x3, x1, x2'', d_rd = 3, d_rs1 = 1, d_rs2 = 2, d_imm = 0,
               d_shamt = None, d_label = None\<rparr>"
  let ?sub = "\<lparr>d_opcode = SUB, d_type = FmtR, d_format = FmtR, d_index = 0, d_lineNum = 1,
               d_original = ''SUB x3, x1, x2'', d_rd = 3, d_rs1 = 1, d_rs2 = 2, d_imm = 0,
               d_shamt = None, d_label = None\<rparr>"
  let ?addi = "\<lparr>d_opcode = ADDI, d_type = FmtI, d_format = FmtI, d_index = 0, d_lineNum = 1,
               d_original = ''ADDI x3, x1, 1'', d_rd = 3, d_rs1 = 1, d_rs2 = 0, d_imm = 1,
               d_shamt = None, d_label = None\<rparr>"
  let ?auipc = "\<lparr>d_opcode = AUIPC, d_type = FmtU, d_format = FmtU, d_index = 0,
               d_lineNum = 1, d_original = ''AUIPC x3, 524287'', d_rd = 3, d_rs1 = 0,
               d_rs2 = 0, d_imm = 2147479552, d_shamt = None, d_label = None\<rparr>"
  let ?s1 = "initial_state\<lparr>registers := (replicate 32 0)[1 := 2147483647, 2 := 1]\<rparr>"
  let ?s2 = "initial_state\<lparr>registers := (replicate 32 0)[1 := - 2147483648, 2 := 1]\<rparr>"
  let ?s3 = "initial_state\<lparr>registers := (replicate 32 0)[1 := 2147483647]\<rparr>"
  let ?s4 = "initial_state\<lparr>pc := 1024\<rparr>"
  have 1: "exact_result ?add ?s1 = Some 2147483648"
    by (simp add: exact_result_def getRegister_def)
  have 2: "exact_result ?sub ?s2 = Some (- 2147483649)"
    by (simp add: exact_result_def getRegister_def)
  have 3: "exact_result ?addi ?s3 = Some 2147483648"
    by (simp add: exact_result_def getRegister_def)
  have 4: "exact_result ?auipc ?s4 = Some 2147483648"
    by (simp add: exact_result_def getRegister_def)
  have 5: "exact_result ?sll ?s5 = Some 2147483648"
    by (simp add: exact_result_def getRegister_def)
  show ?thesis
    using arithmetic_wraparound [OF 1] arithmetic_wraparound [OF 2]
      arithmetic_wraparound [OF 3] arithmetic_wraparound [OF 4]
      arithmetic_wraparound [OF 5]
    by (simp add: initial_state_def wrap32_def)
qed
section \<open>Properties of the decoder\<close>

lemma decode_branch_parity:
  assumes "opcode_type (opcode ins) = FmtSB"
  shows "decode ins = Inl (BranchOffsetNotEven (opcode ins)) \<longleftrightarrow>
         rs1 ins \<noteq> None \<and> rs2 ins \<noteq> None \<and> (\<exists>i. imm ins = Some i \<and> odd i)"
  using assms
  by (auto simp: decode_def decodeBranchFormat_def Let_def js_rem_2 even_signExtend_13
      seq_def validateRegister_def split: option.splits if_splits)

lemma decode_jal_parity:
  assumes "opcode_type (opcode ins) = FmtUJ"
  shows "decode ins = Inl (JumpOffsetNotEven (opcode ins)) \<longleftrightarrow>
         rd ins \<noteq> None \<and> (\<exists>i. imm ins = Some i \<and> odd i)"
  using assms
  by (auto simp: decode_def decodeJALFormat_def Let_def js_rem_2 even_signExtend_21
      seq_def validateRegister_def split: option.splits if_splits)

lemma decode_branch_even:
  assumes "opcode_type (opcode ins) = FmtSB" "rs1 ins = Some a" "rs2 ins = Some b"
    "imm ins = Some i" "even i" "0 \<le> a" "a \<le> 31" "0 \<le> b" "b \<le> 31"
  shows "\<exists>d. decode ins = Inr d \<and> d_imm d = signExtend i 13"
  using assms
  by (auto simp: decode_def decodeBranchFormat_def Let_def js_rem_2 even_signExtend_13
      seq_def validateRegister_def split: option.splits)

lemma decode_jal_even:
  assumes "opcode_type (opcode ins) = FmtUJ" "rd ins = Some r"
    "imm ins = Some i" "even i" "0 \<le> r" "r \<le> 31"
  shows "\<exists>d. decode ins = Inr d \<and> d_imm d = signExtend i 21"
  using assms
  by (auto simp: decode_def decodeJALFormat_def Let_def js_rem_2 even_signExtend_21
      seq_def validateRegister_def split: option.splits)

lemma decode_jalr_any:
  assumes "opcode_type (opcode ins) = FmtJALR" "rd ins = Some r" "rs1 ins = Some a"
    "imm ins = Some i" "0 \<le> r" "r \<le> 31" "0 \<le> a" "a \<le> 31"
  shows "\<exists>d. decode ins = Inr d \<and> d_imm d = signExtend i 12"
  using assms
  by (auto simp: decode_def decodeJALRFormat_def Let_def seq_def validateRegister_def)

text \<open>
  C6, as amended. A branch record (format SB) whose operands are present fails to decode
  with the "branch offset must be even" error exactly when its immediate is odd, and a
  JAL record (format UJ) fails with the "jump offset must be even" error exactly when
  its immediate is odd; with an even immediate and register indices in 0..31 both
  decode. A JALR record is not checked for evenness: with its operands present and its
  register indices in 0..31 it decodes whatever the parity of its immediate.
\<close>

theorem decode_offset_evenness:
  "(opcode_type (opcode ins) = FmtSB \<longrightarrow>
      (decode ins = Inl (BranchOffsetNotEven (opcode ins)) \<longleftrightarrow>
         rs1 ins \<noteq> None \<and> rs2 ins \<noteq> None \<and> (\<exists>i. imm ins = Some i \<and> odd i))
      \<and> (rs1 ins = Some a \<and> rs2 ins = Some b \<and> imm ins = Some i \<and> even i
           \<and> 0 \<le> a \<and> a \<le> 31 \<and> 0 \<le> b \<and> b \<le> 31
         \<longrightarrow> (\<exists>d. decode ins = Inr d \<and> d_imm d = signExtend i 13)))
   \<and> (opcode_type (opcode ins) = FmtUJ \<longrightarrow>
      (decode ins = Inl (JumpOffsetNotEven (opcode ins)) \<longleftrightarrow>
         rd ins \<noteq> None \<and> (\<exists>i. imm ins = Some i \<and> odd i))
      \<and> (rd ins = Some r \<and> imm ins = Some i \<and> even i \<and> 0 \<le> r \<and> r \<le> 31
         \<longrightarrow> (\<exists>d. decode ins = Inr d \<and> d_imm d = signExtend i 21)))
   \<and> (opcode_type (opcode ins) = FmtJALR \<and> rd ins = Some r \<and> rs1 ins = Some a
        \<and> imm ins = Some i \<and> 0 \<le> r \<and> r \<le> 31 \<and> 0 \<le> a \<and> a \<le> 31
      \<longrightarrow> (\<exists>d. decode ins = Inr d \<and> d_imm d = signExtend i 12))"
  using decode_branch_parity [of ins] decode_jal_parity [of ins]
    decode_branch_even [of ins a b i] decode_jal_even [of ins r i]
    decode_jalr_any [of ins r a i]
  by blast

theorem decode_offset_evenness_witness:
  "decode \<lparr>opcode = BEQ, format = FmtSB, index = 0, lineNum = 1,
           original = ''BEQ x1, x2, 3'', rd = None, rs1 = Some 1, rs2 = Some 2,
           imm = Some 3, label = None\<rparr> = Inl (BranchOffsetNotEven BEQ)
   \<and> (\<exists>d. decode \<lparr>opcode = BEQ, format = FmtSB, index = 0, lineNum = 1,
           original = ''BEQ x1, x2, 8'', rd = None, rs1 = Some 1, rs2 = Some 2,
           imm = Some 8, label = None\<rparr> = Inr d \<and> d_imm d = signExtend 8 13)
   \<and> decode \<lparr>opcode = JAL, format = FmtUJ, index = 0, lineNum = 1,
           original = ''JAL x1, 5'', rd = Some 1, rs1 = None, rs2 = None,
           imm = Some 5, label = None\<rparr> = Inl (JumpOffsetNotEven JAL)
   \<and> (\<exists>d. decode \<lparr>opcode = JAL, format = FmtUJ, index = 0, lineNum = 1,
           original = ''JAL x1, 8'', rd = Some 1, rs1 = None, rs2 = None,
           imm = Some 8, label = None\<rparr> = Inr d \<and> d_imm d = signExtend 8 21)
   \<and> (\<exists>d. decode \<lparr>opcode = JALR, format = FmtJALR, index = 0, lineNum = 1,
           original = ''JALR x1, x2, 3'', rd = Some 1, rs1 = Some 2, rs2 = None,
           imm = Some 3, label = None\<rparr> = Inr d \<and> d_imm d = signExtend 3 12)"
  using decode_offset_evenness [of "\<lparr>opcode = BEQ, format = FmtSB, index = 0, lineNum = 1,
           original = ''BEQ x1, x2, 3'', rd = None, rs1 = Some 1, rs2 = Some 2,
           imm = Some 3, label = None\<rparr>" 1 2 3 0]
    decode_offset_evenness [of "\<lparr>opcode = BEQ, format = FmtSB, index = 0, lineNum = 1,
           original = ''BEQ x1, x2, 8'', rd = None, rs1 = Some 1, rs2 = Some 2,
           imm = Some 8, label = None\<rparr>" 1 2 8 0]
    decode_offset_evenness [of "\<lparr>opcode = JAL, format = FmtUJ, index = 0, lineNum = 1,
           original = ''JAL x1, 5'', rd = Some 1, rs1 = None, rs2 = None,
           imm = Some 5, label = None\<rparr>" 0 0 5 1]
    decode_offset_evenness [of "\<lparr>opcode = JAL, format = FmtUJ, index = 0, lineNum = 1,
           original = ''JAL x1, 8'', rd = Some 1, rs1 = None, rs2 = None,
           imm = Some 8, label = None\<rparr>" 0 0 8 1]
    decode_offset_evenness [of "\<lparr>opcode = JALR, format = FmtJALR, index = 0, lineNum = 1,
           original = ''JALR x1, x2, 3'', rd = Some 1, rs1 = Some 2, rs2 = None,
           imm = Some 3, label = None\<rparr>" 2 0 3 1]
  by simp

text \<open>
  C6 as stated fails on JALR: the record of \<open>JALR x1, x2, 3\<close>, whose immediate is odd,
  is decoded, not rejected.
\<close>

theorem decode_JALR_odd_counterexample:
  "odd (3 :: int)
   \<and> decode \<lparr>opcode = JALR, format = FmtJALR, index = 0, lineNum = 1,
             original = ''JALR x1, x2, 3'', rd = Some 1, rs1 = Some 2, rs2 = None,
             imm = Some 3, label = None\<rparr>
     = Inr \<lparr>d_opcode = JALR, d_type = FmtJALR, d_format = FmtJALR, d_index = 0,
            d_lineNum = 1, d_original = ''JALR x1, x2, 3'', d_rd = 1, d_rs1 = 2,
            d_rs2 = 0, d_imm = 3, d_shamt = None, d_label = None\<rparr>"
proof -
  have "signExtend 3 12 = 3" by code_simp
  then show ?thesis
    by (simp add: decode_def decodeJALRFormat_def seq_def validateRegister_def)
qed

section \<open>Properties of the parser\<close>

subsection \<open>Immediate literals\<close>

text \<open>
  \<open>parseImmediate\<close> on the four widths the parser passes to it: it rejects exactly the
  values outside the signed range of the width.
\<close>

lemma parseImmediate_bounds:
  assumes "bits \<in> {12, 13, 20, 21}"
  shows "parseImmediate tok bits =
     (case immediate_value tok of
        None \<Rightarrow> Inl (InvalidImmediate tok)
      | Some v \<Rightarrow> if in_signed_range bits v then Inr v else Inl (ImmediateRange v bits))"
  using assms
  by (auto simp: parseImmediate_def js_shl_values Let_def in_signed_range_def
      split: option.splits)

lemmas parseImmediate_widths =
  parseImmediate_bounds [of 12, simplified] parseImmediate_bounds [of 13, simplified]
  parseImmediate_bounds [of 20, simplified] parseImmediate_bounds [of 21, simplified]

text \<open>
  Every record that \<open>parseInstruction\<close> returns whose immediate did not come from a label
  holds an immediate inside the signed range of its format's width.
\<close>

lemma literal_immediate_in_range:
  assumes "parseInstruction ls line idx n = Inr r" and "label r = None" and "imm r = Some v"
  shows "\<exists>bits. immediate_bits (format r) = Some bits \<and> in_signed_range bits v"
  using assms
  by (auto simp: parseInstruction_def parseRFormat_def parseIFormat_def parseLoadFormat_def
      parseStoreFormat_def parseBranchFormat_def parseJALFormat_def parseJALRFormat_def
      parseUFormat_def label_or_immediate_def label_lookup_def bind_def Let_def
      parseImmediate_widths immediate_bits_def in_signed_range_def
      split: list.splits option.splits format.splits sum.splits if_splits)

text \<open>
  For each format and each operand count its parser accepts: where the immediate operand
  is a literal (for a branch or JAL, a token that is not a defined label), the line is
  rejected when the literal's value is outside the signed range of the format's width,
  with the range error unless a register operand read before it is invalid; inside the
  range the literal is accepted and becomes the record's immediate, and only an invalid
  register can make the line fail.
\<close>

lemma immediate_literal_checked:
  assumes "tokens line = p # ops"
    and "map_of instructionFormats (toUpperCase p) = Some opc"
    and "immediate_operand (opcode_type opc) ops = Some tok"
    and "immediate_bits (opcode_type opc) = Some bits"
    and "immediate_value tok = Some v"
    and "opcode_type opc \<in> {FmtSB, FmtUJ} \<longrightarrow> label_lookup ls tok = Inr None"
  shows "case parseInstruction ls line idx n of
           Inl e \<Rightarrow> (\<exists>x. e = InvalidRegister x)
                    \<or> (\<not> in_signed_range bits v \<and> e = ImmediateRange v bits)
         | Inr r \<Rightarrow> in_signed_range bits v \<and> imm r = Some v \<and> label r = None"
proof (cases "opcode_type opc")
  case FmtR
  with assms(4) show ?thesis by (simp add: immediate_bits_def)
next
  case FmtI
  with assms show ?thesis
    by (auto simp: parseInstruction_def parseIFormat_def bind_def Let_def
      parseImmediate_widths immediate_bits_def immediate_operand_def parseRegister_def
      split: list.splits option.splits sum.splits if_splits)
next
  case FmtIL
  with assms show ?thesis
    by (auto simp: parseInstruction_def parseLoadFormat_def bind_def Let_def
      parseImmediate_widths immediate_bits_def immediate_operand_def parseRegister_def
      split: list.splits option.splits sum.splits if_splits)
next
  case FmtS
  with assms show ?thesis
    by (auto simp: parseInstruction_def parseStoreFormat_def bind_def Let_def
      parseImmediate_widths immediate_bits_def immediate_operand_def parseRegister_def
      split: list.splits option.splits sum.splits if_splits)
next
  case FmtSB
  with assms show ?thesis
    by (auto simp: parseInstruction_def parseBranchFormat_def label_or_immediate_def
      bind_def Let_def
      parseImmediate_widths immediate_bits_def immediate_operand_def parseRegister_def
      split: list.splits option.splits sum.splits if_splits)
next
  case FmtUJ
  with assms show ?thesis
    by (auto simp: parseInstruction_def parseJALFormat_def label_or_immediate_def
      bind_def Let_def
      parseImmediate_widths immediate_bits_def immediate_operand_def parseRegister_def
      split: list.splits option.splits sum.splits if_splits)
next
  case FmtJALR
  with assms show ?thesis
    by (auto simp: parseInstruction_def parseJALRFormat_def bind_def Let_def
      parseImmediate_widths immediate_bits_def immediate_operand_def parseRegister_def
      split: list.splits option.splits sum.splits if_splits)
next
  case FmtU
  with assms show ?thesis
    by (auto simp: parseInstruction_def parseUFormat_def bind_def Let_def
      parseImmediate_widths immediate_bits_def immediate_operand_def parseRegister_def
      split: list.splits option.splits sum.splits if_splits)
next
  case FmtHLT
  with assms(4) show ?thesis by (simp add: immediate_bits_def)
qed

lemma parseInstruction_I:
  assumes "tokens line = [p, r1, r2, t]"
    and "map_of instructionFormats (toUpperCase p) = Some opc"
    and "opcode_type opc = FmtI"
  shows "parseInstruction ls line idx n =
     bind (parseRegister r1) (\<lambda>r.
     bind (parseRegister r2) (\<lambda>a.
     bind (parseImmediate t 12) (\<lambda>i.
       Inr \<lparr>opcode = opc, format = FmtI, index = idx, lineNum = n, original = line,
            rd = Some r, rs1 = Some a, rs2 = None, imm = Some i, label = None\<rparr>)))"
  using assms
  by (simp add: parseInstruction_def parseIFormat_def Let_def bind_def split: sum.splits)

lemma immediate_value_2048: "immediate_value ''2048'' = Some 2048"
  by code_simp

lemma immediate_value_2047: "immediate_value ''2047'' = Some 2047"
  by code_simp

text \<open>
  On a line of an I-format instruction whose two register operands are valid, the
  immediate literal 2048 is rejected with the range error and 2047 is accepted.
\<close>

lemma I_format_2048_2047:
  assumes "tokens line = [p, r1, r2, t]"
    and "map_of instructionFormats (toUpperCase p) = Some opc"
    and "opcode_type opc = FmtI"
    and "parseRegister r1 = Inr r" and "parseRegister r2 = Inr a"
  shows "t = ''2048'' \<longrightarrow> parseInstruction ls line idx n = Inl (ImmediateRange 2048 12)"
    and "t = ''2047'' \<longrightarrow> parseInstruction ls line idx n =
          Inr \<lparr>opcode = opc, format = FmtI, index = idx, lineNum = n, original = line,
               rd = Some r, rs1 = Some a, rs2 = None, imm = Some 2047, label = None\<rparr>"
  using assms(4,5)
  by (simp_all add: parseInstruction_I [OF assms(1-3)] bind_def parseImmediate_widths
      immediate_value_2048 immediate_value_2047 in_signed_range_def)

subsection \<open>The first pass\<close>

lemma label_match_colon: "label_match line = Some x \<Longrightarrow> CHR '':'' \<in> set line"
proof -
  assume a: "label_match line = Some x"
  then obtain c after where d: "dropWhile is_word_char line = c # after" and c: "c = CHR '':''"
    by (auto simp: label_match_def Let_def split: list.splits if_splits)
  then have "c \<in> set (dropWhile is_word_char line)" by simp
  then have "c \<in> set line" by (rule set_dropWhileD)
  with c show ?thesis by simp
qed

lemma first_pass_line_eq:
  "first_pass_line l idx ls =
     (pass1_text l, (if counted l then idx + 1 else idx),
      (case defined_label l of Some n \<Rightarrow> set_label ls n idx | None \<Rightarrow> ls))"
proof (cases "label_match (cleanLine l)")
  case None
  then show ?thesis
    by (simp add: first_pass_line_def pass1_text_def counted_def defined_label_def Let_def)
next
  case (Some x)
  then have "CHR '':'' \<in> set (cleanLine l)" by (rule label_match_colon)
  moreover from this have "cleanLine l \<noteq> []" by auto
  ultimately show ?thesis
    using Some
    by (cases x)
      (simp add: first_pass_line_def pass1_text_def counted_def defined_label_def Let_def)
qed

lemma first_pass_Cons:
  "first_pass (l # rest) idx ls =
     (pass1_text l
        # fst (first_pass rest (if counted l then idx + 1 else idx)
                 (case defined_label l of Some n \<Rightarrow> set_label ls n idx | None \<Rightarrow> ls)),
      snd (first_pass rest (if counted l then idx + 1 else idx)
             (case defined_label l of Some n \<Rightarrow> set_label ls n idx | None \<Rightarrow> ls)))"
  by (simp add: first_pass_line_eq split: prod.splits)

lemma first_pass_fst: "fst (first_pass lines idx ls) = map pass1_text lines"
  by (induction lines arbitrary: idx ls) (simp_all add: first_pass_Cons del: first_pass.simps(2))

lemma set_label_other: "n \<noteq> l \<Longrightarrow> set_label ls n idx l = ls l"
  by (simp add: set_label_def)

text \<open>
  The label table after the first pass: a label that no line defines keeps what the
  table held for it, and a label whose last definition stands on line \<open>j\<close> is bound to
  the number of lines before \<open>j\<close> that the pass counted (the assignment to \<open>__proto__\<close>
  apart, which stores nothing).
\<close>

lemma first_pass_undefined:
  "\<forall>x \<in> set lines. defined_label x \<noteq> Some l \<Longrightarrow> snd (first_pass lines idx ls) l = ls l"
proof (induction lines arbitrary: idx ls)
  case Nil
  then show ?case by simp
next
  case (Cons x xs)
  then show ?case
    by (cases "defined_label x")
      (simp_all add: first_pass_Cons set_label_other del: first_pass.simps(2))
qed

lemma first_pass_binding:
  assumes "j < length lines" and "defined_label (lines ! j) = Some l"
    and "\<forall>k. j < k \<and> k < length lines \<longrightarrow> defined_label (lines ! k) \<noteq> Some l"
  shows "snd (first_pass lines idx ls) l =
           set_label ls l (idx + int (length (filter counted (take j lines)))) l"
  using assms
proof (induction lines arbitrary: j idx ls)
  case Nil
  then show ?case by simp
next
  case (Cons x xs)
  show ?case
  proof (cases j)
    case 0
    with Cons.prems have d: "defined_label x = Some l" by simp
    have "\<forall>y \<in> set xs. defined_label y \<noteq> Some l"
    proof
      fix y assume "y \<in> set xs"
      then obtain k where "k < length xs" "xs ! k = y" by (auto simp: in_set_conv_nth)
      with Cons.prems(3) [rule_format, of "Suc k"] 0 show "defined_label y \<noteq> Some l" by auto
    qed
    from first_pass_undefined [OF this] d 0 show ?thesis
      by (simp add: first_pass_Cons del: first_pass.simps(2))
  next
    case (Suc j')
    have 1: "j' < length xs" using Cons.prems(1) Suc by simp
    have 2: "defined_label (xs ! j') = Some l" using Cons.prems(2) Suc by simp
    have 3: "\<forall>k. j' < k \<and> k < length xs \<longrightarrow> defined_label (xs ! k) \<noteq> Some l"
      using Cons.prems(3) Suc by (metis Suc_less_eq length_Cons nth_Cons_Suc)
    note ih = Cons.IH [OF 1 2 3]
    show ?thesis
      using Suc
      by (cases "defined_label x")
        (auto simp: first_pass_Cons ih set_label_def simp del: first_pass.simps(2))
  qed
qed




subsection \<open>The second pass\<close>

lemma second_pass_line_eq:
  "second_pass_line ls l idx lnum =
     (if emits l
      then (case parseInstruction ls (instruction_text l) idx (lnum + 1) of
              Inl e \<Rightarrow> Inl (AtLine (lnum + 1) e)
            | Inr r \<Rightarrow> Inr (Some r))
      else Inr None)"
  by (simp add: second_pass_line_def emits_def instruction_text_def Let_def split: sum.splits)


lemma second_pass_Cons:
  "second_pass ls (l # rest) lnum idx =
     (if emits l
      then (case parseInstruction ls (instruction_text l) idx (lnum + 1) of
              Inl e \<Rightarrow> Inl (AtLine (lnum + 1) e)
            | Inr r \<Rightarrow>
                (case second_pass ls rest (lnum + 1) (idx + 1) of
                   Inl e \<Rightarrow> Inl e
                 | Inr inss \<Rightarrow> Inr (r # inss)))
      else second_pass ls rest (lnum + 1) idx)"
  by (simp add: second_pass_line_eq split: sum.splits)





lemma second_pass_nth:
  "second_pass ls lines lnum idx = Inr ins \<Longrightarrow> m < length lines \<Longrightarrow> emits (lines ! m) \<Longrightarrow>
     length (filter emits (take m lines)) < length ins
     \<and> parseInstruction ls (instruction_text (lines ! m))
          (idx + int (length (filter emits (take m lines)))) (lnum + m + 1)
        = Inr (ins ! length (filter emits (take m lines)))"
proof (induction lines arbitrary: lnum idx ins m)
  case Nil
  then show ?case by simp
next
  case (Cons l rest)
  show ?case
  proof (cases m)
    case 0
    with Cons.prems show ?thesis
      by (auto simp: second_pass_Cons simp del: second_pass.simps(2) split: sum.splits)
  next
    case (Suc m')
    with Cons.prems have m: "m' < length rest" and e: "emits (rest ! m')" by simp_all
    show ?thesis
    proof (cases "emits l")
      case False
      with Cons.prems have s: "second_pass ls rest (lnum + 1) idx = Inr ins"
        by (simp add: second_pass_Cons del: second_pass.simps(2))
      from Cons.IH [OF s m e] False Suc show ?thesis by simp
    next
      case True
      with Cons.prems obtain r inss where
        s: "second_pass ls rest (lnum + 1) (idx + 1) = Inr inss" and i: "ins = r # inss"
        by (auto simp: second_pass_Cons simp del: second_pass.simps(2) split: sum.splits)
      from Cons.IH [OF s m e] True Suc i show ?thesis by (simp add: algebra_simps)
    qed
  qed
qed

lemma second_pass_error:
  "second_pass ls lines lnum idx = Inl err \<Longrightarrow>
     \<exists>m < length lines. \<exists>e i. emits (lines ! m) \<and> err = AtLine (lnum + m + 1) e
        \<and> parseInstruction ls (instruction_text (lines ! m)) i (lnum + m + 1) = Inl e"
proof (induction lines arbitrary: lnum idx)
  case Nil
  then show ?case by simp
next
  case (Cons l rest)
  have step: "\<exists>m < length (l # rest). \<exists>e i. emits ((l # rest) ! m)
        \<and> err = AtLine (lnum + m + 1) e
        \<and> parseInstruction ls (instruction_text ((l # rest) ! m)) i (lnum + m + 1) = Inl e"
    if "second_pass ls rest (lnum + 1) i0 = Inl err" for i0
  proof -
    from Cons.IH [OF that] obtain m e i where "m < length rest" "emits (rest ! m)"
      "err = AtLine (lnum + 1 + m + 1) e"
      "parseInstruction ls (instruction_text (rest ! m)) i (lnum + 1 + m + 1) = Inl e"
      by blast
    then show ?thesis by (intro exI [of _ "Suc m"]) auto
  qed
  show ?case
  proof (cases "emits l")
    case False
    with Cons.prems have "second_pass ls rest (lnum + 1) idx = Inl err"
      by (simp add: second_pass_Cons del: second_pass.simps(2))
    then show ?thesis by (rule step)
  next
    case True
    show ?thesis
    proof (cases "parseInstruction ls (instruction_text l) idx (lnum + 1)")
      case (Inl e)
      with True Cons.prems have "err = AtLine (lnum + 1) e"
        by (simp add: second_pass_Cons del: second_pass.simps(2))
      with True Inl show ?thesis
        by (intro exI [of _ 0]) auto
    next
      case (Inr r)
      with True Cons.prems have "second_pass ls rest (lnum + 1) (idx + 1) = Inl err"
        by (simp add: second_pass_Cons del: second_pass.simps(2) split: sum.splits)
      then show ?thesis by (rule step)
    qed
  qed
qed

lemma parse_eq:
  "parse code = second_pass (label_table code) (map pass1_text (split_on (CHR 10) code)) 0 0"
  using first_pass_fst [of "split_on (CHR 10) code" 0 Map.empty]
  by (auto simp: parse_def label_table_def split: prod.splits)






subsection \<open>Lines whose mnemonic is HLT\<close>

lemma split_on_absent: "c \<notin> set s \<Longrightarrow> split_on c s = [s]"
  by (induction s) (auto simp: Let_def)

lemma split_on_append_sep: "c \<notin> set s \<Longrightarrow> split_on c (s @ c # t) = s # split_on c t"
  by (induction s) (auto simp: Let_def)

lemma split_on_replicate:
  "c \<notin> set s \<Longrightarrow>
     split_on c (concat (replicate n (s @ [c])) @ t) = replicate n s @ split_on c t"
  by (induction n) (simp_all add: split_on_append_sep)

lemma tokens_Cons_nonempty: "tokens line = p # ps \<Longrightarrow> line \<noteq> []"
  by (auto simp: tokens_def)

lemma not_label_only: "CHR '':'' \<notin> set line \<Longrightarrow> \<not> label_only line"
proof -
  assume a: "CHR '':'' \<notin> set line"
  show ?thesis
  proof (cases "dropWhile is_word_char line")
    case Nil
    then show ?thesis by (simp add: label_only_def del: dropWhile_eq_Nil_conv)
  next
    case (Cons c after)
    then have "c \<in> set (dropWhile is_word_char line)" by simp
    then have "c \<in> set line" by (rule set_dropWhileD)
    with a have "c \<noteq> CHR '':''" by auto
    with Cons show ?thesis by (simp add: label_only_def)
  qed
qed

lemma parse_single_line:
  assumes "CHR 10 \<notin> set src" and "CHR '':'' \<notin> set (cleanLine src)"
    and "cleanLine src \<noteq> []"
    and "parseInstruction Map.empty (cleanLine src) 0 1 = Inr ins"
  shows "parse src = Inr [ins]"
proof -
  have 1: "first_pass_line src 0 Map.empty = (src, 1, Map.empty)"
    using assms(2,3) by (simp add: first_pass_line_def Let_def)
  have 2: "second_pass_line Map.empty src 0 0 = Inr (Some ins)"
    using assms(2,3,4) not_label_only [OF assms(2)]
    by (simp add: second_pass_line_def Let_def)
  show ?thesis
    using assms(1) 1 2 by (simp add: parse_def split_on_absent)
qed

lemma HLT_line_parses:
  assumes "tokens line = p # ps" and "toUpperCase p = ''HLT''"
  shows "parseInstruction ls line idx n =
     Inr \<lparr>opcode = HLT, format = FmtHLT, index = idx, lineNum = n, original = line,
          rd = None, rs1 = None, rs2 = None, imm = None, label = None\<rparr>"
proof -
  have "map_of instructionFormats ''HLT'' = Some HLT" by code_simp
  then show ?thesis using assms by (simp add: parseInstruction_def)
qed

lemma plain_line_emits:
  assumes "CHR '':'' \<notin> set (cleanLine x)" and "cleanLine x \<noteq> []"
  shows "emits x" and "instruction_text x = cleanLine x"
  using assms not_label_only [OF assms(1)]
  by (simp_all add: emits_def second_pass_line_def instruction_text_def Let_def
      split: sum.splits)

lemma HLT_line_in_program:
  assumes u: "toUpperCase p = ''HLT''"
    and k: "k < length (split_on (CHR 10) code)"
    and c: "CHR '':'' \<notin> set (cleanLine (pass1_text (split_on (CHR 10) code ! k)))"
    and t: "tokens (cleanLine (pass1_text (split_on (CHR 10) code ! k))) = p # ps"
  shows "\<forall>e. parse code \<noteq> Inl (AtLine (k + 1) e)"
    and "\<forall>ins. parse code = Inr ins \<longrightarrow>
           (\<exists>m < length ins. ins ! m =
              \<lparr>opcode = HLT, format = FmtHLT, index = int m, lineNum = k + 1,
               original = cleanLine (pass1_text (split_on (CHR 10) code ! k)),
               rd = None, rs1 = None, rs2 = None, imm = None, label = None\<rparr>)"
proof -
  let ?lines = "map pass1_text (split_on (CHR 10) code)"
  let ?tbl = "label_table code"
  let ?c = "cleanLine (pass1_text (split_on (CHR 10) code ! k))"
  have x: "?lines ! k = pass1_text (split_on (CHR 10) code ! k)" using k by simp
  have k': "k < length ?lines" using k by simp
  note ne = tokens_Cons_nonempty [OF t]
  note pl = plain_line_emits [OF c ne]
  have e: "emits (?lines ! k)" and it: "instruction_text (?lines ! k) = ?c"
    using pl by (simp_all add: x)
  note h = HLT_line_parses [OF t u, of ?tbl]
  show "\<forall>e. parse code \<noteq> Inl (AtLine (k + 1) e)"
  proof (intro allI notI)
    fix err
    assume "parse code = Inl (AtLine (k + 1) err)"
    then have "second_pass ?tbl ?lines 0 0 = Inl (AtLine (k + 1) err)" by (simp add: parse_eq)
    from second_pass_error [OF this] obtain m e' i where "m < length ?lines"
      and "AtLine (k + 1) err = AtLine (0 + m + 1) e'"
      and "parseInstruction ?tbl (instruction_text (?lines ! m)) i (0 + m + 1) = Inl e'"
      by blast
    then have "parseInstruction ?tbl (instruction_text (?lines ! k)) i (k + 1) = Inl e'"
      by simp
    with h [of i "k + 1"] it show False by simp
  qed
  show "\<forall>ins. parse code = Inr ins \<longrightarrow>
           (\<exists>m < length ins. ins ! m =
              \<lparr>opcode = HLT, format = FmtHLT, index = int m, lineNum = k + 1,
               original = ?c, rd = None, rs1 = None, rs2 = None, imm = None, label = None\<rparr>)"
  proof (intro allI impI)
    fix ins
    assume "parse code = Inr ins"
    then have s: "second_pass ?tbl ?lines 0 0 = Inr ins" by (simp add: parse_eq)
    let ?m = "length (filter emits (take k ?lines))"
    from second_pass_nth [OF s k' e] it h [of "int ?m" "k + 1"]
    have "?m < length ins" and "ins ! ?m =
              \<lparr>opcode = HLT, format = FmtHLT, index = int ?m, lineNum = k + 1,
               original = ?c, rd = None, rs1 = None, rs2 = None, imm = None, label = None\<rparr>"
      by simp_all
    then show "\<exists>m < length ins. ins ! m =
              \<lparr>opcode = HLT, format = FmtHLT, index = int m, lineNum = k + 1,
               original = ?c, rd = None, rs1 = None, rs2 = None, imm = None, label = None\<rparr>"
      by blast
  qed
qed

text \<open>
  C10, as amended. \<open>parseInstruction\<close> returns, for every line whose first token is HLT in
  any letter case, the record that holds the opcode, the format, the index, the line
  number and the original text and nothing else, whatever tokens follow the mnemonic. In
  a source, take a line whose text, once the first pass has removed a leading label and
  the comment is stripped, starts with the token HLT and contains no colon: \<open>parse\<close>
  never reports an error for that line, and when the source parses, the parsed list holds
  that record for the line, with the line's number and its position in the list as its
  index. In particular a one-line source of this kind parses to the one record.
\<close>

theorem parse_HLT_line:
  assumes "toUpperCase p = ''HLT''"
  shows "(tokens line = p # ps \<longrightarrow>
            parseInstruction ls line idx n =
              Inr \<lparr>opcode = HLT, format = FmtHLT, index = idx, lineNum = n, original = line,
                   rd = None, rs1 = None, rs2 = None, imm = None, label = None\<rparr>)
       \<and> (CHR 10 \<notin> set src \<and> CHR '':'' \<notin> set (cleanLine src)
            \<and> tokens (cleanLine src) = p # ps' \<longrightarrow>
            parse src =
              Inr [\<lparr>opcode = HLT, format = FmtHLT, index = 0, lineNum = 1,
                    original = cleanLine src, rd = None, rs1 = None, rs2 = None,
                    imm = None, label = None\<rparr>])
       \<and> (k < length (split_on (CHR 10) code)
            \<and> CHR '':'' \<notin> set (cleanLine (pass1_text (split_on (CHR 10) code ! k)))
            \<and> tokens (cleanLine (pass1_text (split_on (CHR 10) code ! k))) = p # ps'' \<longrightarrow>
            (\<forall>e. parse code \<noteq> Inl (AtLine (k + 1) e))
            \<and> (\<forall>ins. parse code = Inr ins \<longrightarrow>
                 (\<exists>m < length ins. ins ! m =
                    \<lparr>opcode = HLT, format = FmtHLT, index = int m, lineNum = k + 1,
                     original = cleanLine (pass1_text (split_on (CHR 10) code ! k)),
                     rd = None, rs1 = None, rs2 = None, imm = None, label = None\<rparr>)))"
proof (intro conjI impI)
  assume "tokens line = p # ps"
  then show "parseInstruction ls line idx n =
              Inr \<lparr>opcode = HLT, format = FmtHLT, index = idx, lineNum = n, original = line,
                   rd = None, rs1 = None, rs2 = None, imm = None, label = None\<rparr>"
    using assms by (rule HLT_line_parses)
next
  assume a: "CHR 10 \<notin> set src \<and> CHR '':'' \<notin> set (cleanLine src)
            \<and> tokens (cleanLine src) = p # ps'"
  then have t: "tokens (cleanLine src) = p # ps'" by simp
  from a HLT_line_parses [OF t assms, of Map.empty 0 1]
    tokens_Cons_nonempty [OF t]
  show "parse src =
              Inr [\<lparr>opcode = HLT, format = FmtHLT, index = 0, lineNum = 1,
                    original = cleanLine src, rd = None, rs1 = None, rs2 = None,
                    imm = None, label = None\<rparr>]"
    by (intro parse_single_line) simp_all
next
  assume a: "k < length (split_on (CHR 10) code)
            \<and> CHR '':'' \<notin> set (cleanLine (pass1_text (split_on (CHR 10) code ! k)))
            \<and> tokens (cleanLine (pass1_text (split_on (CHR 10) code ! k))) = p # ps''"
  then have 1: "k < length (split_on (CHR 10) code)"
    and 2: "CHR '':'' \<notin> set (cleanLine (pass1_text (split_on (CHR 10) code ! k)))"
    and 3: "tokens (cleanLine (pass1_text (split_on (CHR 10) code ! k))) = p # ps''"
    by simp_all
  show "\<forall>e. parse code \<noteq> Inl (AtLine (k + 1) e)"
    by (rule HLT_line_in_program(1) [OF assms 1 2 3])
next
  assume a: "k < length (split_on (CHR 10) code)
            \<and> CHR '':'' \<notin> set (cleanLine (pass1_text (split_on (CHR 10) code ! k)))
            \<and> tokens (cleanLine (pass1_text (split_on (CHR 10) code ! k))) = p # ps''"
  then have 1: "k < length (split_on (CHR 10) code)"
    and 2: "CHR '':'' \<notin> set (cleanLine (pass1_text (split_on (CHR 10) code ! k)))"
    and 3: "tokens (cleanLine (pass1_text (split_on (CHR 10) code ! k))) = p # ps''"
    by simp_all
  show "\<forall>ins. parse code = Inr ins \<longrightarrow>
                 (\<exists>m < length ins. ins ! m =
                    \<lparr>opcode = HLT, format = FmtHLT, index = int m, lineNum = k + 1,
                     original = cleanLine (pass1_text (split_on (CHR 10) code ! k)),
                     rd = None, rs1 = None, rs2 = None, imm = None, label = None\<rparr>)"
    by (rule HLT_line_in_program(2) [OF assms 1 2 3])
qed

theorem parse_HLT_line_witness:
  "toUpperCase ''hlt'' = ''HLT''
   \<and> tokens ''hlt x1, 99 (bogus)'' = [''hlt'', ''x1'', ''99'', ''bogus'']
   \<and> parseInstruction Map.empty ''hlt x1, 99 (bogus)'' 4 7 =
       Inr \<lparr>opcode = HLT, format = FmtHLT, index = 4, lineNum = 7,
            original = ''hlt x1, 99 (bogus)'', rd = None, rs1 = None, rs2 = None,
            imm = None, label = None\<rparr>
   \<and> parse ''  hlt x1, 99 (bogus)  # stop'' =
       Inr [\<lparr>opcode = HLT, format = FmtHLT, index = 0, lineNum = 1,
             original = ''hlt x1, 99 (bogus)'', rd = None, rs1 = None, rs2 = None,
             imm = None, label = None\<rparr>]
   \<and> cleanLine (pass1_text (split_on (CHR 10) hlt_source ! 1)) = ''hlt x1, 99 (bogus)''
   \<and> parse hlt_source =
       Inr [\<lparr>opcode = ADDI, format = FmtI, index = 0, lineNum = 1,
             original = ''ADDI x1, x0, 1'', rd = Some 1, rs1 = Some 0, rs2 = None,
             imm = Some 1, label = None\<rparr>,
            \<lparr>opcode = HLT, format = FmtHLT, index = 1, lineNum = 2,
             original = ''hlt x1, 99 (bogus)'', rd = None, rs1 = None, rs2 = None,
             imm = None, label = None\<rparr>]"
proof -
  have u: "toUpperCase ''hlt'' = ''HLT''" by code_simp
  have t: "tokens ''hlt x1, 99 (bogus)'' = [''hlt'', ''x1'', ''99'', ''bogus'']"
    by code_simp
  have c: "cleanLine ''  hlt x1, 99 (bogus)  # stop'' = ''hlt x1, 99 (bogus)''"
    by code_simp
  have n: "CHR 10 \<notin> set ''  hlt x1, 99 (bogus)  # stop''" by simp
  have k: "CHR '':'' \<notin> set ''hlt x1, 99 (bogus)''" by simp
  have l: "1 < length (split_on (CHR 10) hlt_source)" by code_simp
  have c1: "cleanLine (pass1_text (split_on (CHR 10) hlt_source ! 1)) = ''hlt x1, 99 (bogus)''"
    by code_simp
  have p: "parse hlt_source =
       Inr [\<lparr>opcode = ADDI, format = FmtI, index = 0, lineNum = 1,
             original = ''ADDI x1, x0, 1'', rd = Some 1, rs1 = Some 0, rs2 = None,
             imm = Some 1, label = None\<rparr>,
            \<lparr>opcode = HLT, format = FmtHLT, index = 1, lineNum = 2,
             original = ''hlt x1, 99 (bogus)'', rd = None, rs1 = None, rs2 = None,
             imm = None, label = None\<rparr>]"
    by code_simp
  show ?thesis
    using parse_HLT_line [OF u, of "''hlt x1, 99 (bogus)''"
        "[''x1'', ''99'', ''bogus'']" Map.empty 4 7 "''  hlt x1, 99 (bogus)  # stop''"
        "[''x1'', ''99'', ''bogus'']" 1 hlt_source "[''x1'', ''99'', ''bogus'']"]
      u t c n k l c1 p
    by simp
qed

text \<open>
  C10 as stated fails on a line whose operand text contains a colon. The line
  \<open>HLT a:b\<close> has the mnemonic HLT, and \<open>parseInstruction\<close> accepts it; but the second
  pass of \<open>parse\<close> takes what stands before the colon for a label and hands only \<open>b\<close> to
  \<open>parseInstruction\<close>, so the source is rejected with an unknown instruction. The line
  \<open>HLT x:\<close> is skipped, and the source parses to no instruction at all.
\<close>

theorem HLT_colon_counterexample:
  "tokens ''HLT a:b'' = [''HLT'', ''a:b'']
   \<and> parseInstruction Map.empty ''HLT a:b'' 0 1 =
       Inr \<lparr>opcode = HLT, format = FmtHLT, index = 0, lineNum = 1, original = ''HLT a:b'',
            rd = None, rs1 = None, rs2 = None, imm = None, label = None\<rparr>
   \<and> parse ''HLT a:b'' = Inl (AtLine 1 (UnknownInstruction ''B''))
   \<and> tokens ''HLT x:'' = [''HLT'', ''x:'']
   \<and> parse ''HLT x:'' = Inr []"
  by code_simp

subsection \<open>Branches to labels\<close>


lemma parseInstruction_SB:
  assumes "tokens line = [p, r1, r2, t]"
    and "map_of instructionFormats (toUpperCase p) = Some opc"
    and "opcode_type opc = FmtSB"
  shows "parseInstruction ls line idx n =
     bind (parseRegister r1) (\<lambda>a.
     bind (parseRegister r2) (\<lambda>b.
       label_or_immediate ls
         \<lparr>opcode = opc, format = FmtSB, index = idx, lineNum = n, original = line,
          rd = None, rs1 = Some a, rs2 = Some b, imm = None, label = None\<rparr> t 13))"
  using assms
  by (simp add: parseInstruction_def parseBranchFormat_def Let_def bind_def
      split: sum.splits)






subsection \<open>A branch to a label out of the 13-bit range\<close>

lemma second_pass_HLT_lines:
  "second_pass ls (replicate n ''HLT'') lnum idx
     = Inr (map (\<lambda>k. \<lparr>opcode = HLT, format = FmtHLT, index = idx + int k,
                       lineNum = lnum + k + 1, original = ''HLT'', rd = None, rs1 = None,
                       rs2 = None, imm = None, label = None\<rparr>) [0..<n])"
proof (induction n arbitrary: lnum idx)
  case 0
  then show ?case by simp
next
  case (Suc n)
  have e: "emits ''HLT''" by code_simp
  have t: "instruction_text ''HLT'' = ''HLT''" by code_simp
  have k: "tokens ''HLT'' = ''HLT'' # []" by code_simp
  have u: "toUpperCase ''HLT'' = ''HLT''" by code_simp
  note h = HLT_line_parses [OF k u, of ls idx "Suc lnum"]
  have m: "[0..<Suc n] = 0 # map Suc [0..<n]"
    by (simp add: upt_conv_Cons map_Suc_upt del: upt_Suc)
  show ?case
    unfolding replicate_Suc second_pass_Cons m
    by (simp add: e t h Suc.IH [of "Suc lnum" "idx + 1"] o_def add.assoc del: upt_Suc)
qed

lemma far_branch_lines:
  "split_on (CHR 10) far_branch_source
     = ''BEQ x0, x0, far'' # replicate 1023 ''HLT'' @ [''far: HLT'']"
proof -
  have 1: "CHR 10 \<notin> set ''BEQ x0, x0, far''" by simp
  have 2: "CHR 10 \<notin> set ''HLT''" by simp
  have 3: "CHR 10 \<notin> set ''far: HLT''" by simp
  have eq: "far_branch_source
          = ''BEQ x0, x0, far''
            @ CHR 10 # (concat (replicate 1023 (''HLT'' @ [CHR 10])) @ ''far: HLT'')"
    by (simp add: far_branch_source_def)
  have "split_on (CHR 10) far_branch_source
          = ''BEQ x0, x0, far''
            # split_on (CHR 10) (concat (replicate 1023 (''HLT'' @ [CHR 10])) @ ''far: HLT'')"
    unfolding eq by (rule split_on_append_sep [OF 1])
  also have "split_on (CHR 10) (concat (replicate 1023 (''HLT'' @ [CHR 10])) @ ''far: HLT'')
          = replicate 1023 ''HLT'' @ split_on (CHR 10) ''far: HLT''"
    by (rule split_on_replicate [OF 2])
  also have "split_on (CHR 10) ''far: HLT'' = [''far: HLT'']"
    by (rule split_on_absent [OF 3])
  finally show ?thesis .
qed

lemma far_branch_table:
  "label_table far_branch_source ''far'' = Some 1024"
  "label_table far_branch_source ''hasOwnProperty'' = None"
proof -
  let ?lines = "''BEQ x0, x0, far'' # replicate 1023 ''HLT'' @ [''far: HLT'']"
  have cB: "counted ''BEQ x0, x0, far''" by code_simp
  have cH: "counted ''HLT''" by code_simp
  have dB: "defined_label ''BEQ x0, x0, far'' = None" by code_simp
  have dH: "defined_label ''HLT'' = None" by code_simp
  have dF: "defined_label ''far: HLT'' = Some ''far''" by code_simp
  have j: "1024 < length ?lines" by simp
  have n: "?lines ! 1024 = ''far: HLT''" by (simp add: nth_append)
  have len: "length ?lines = 1025" by simp
  have last: "\<forall>k. 1024 < k \<and> k < length ?lines \<longrightarrow> defined_label (?lines ! k) \<noteq> Some ''far''"
    unfolding len by arith
  have tk: "take 1024 ?lines = ''BEQ x0, x0, far'' # replicate 1023 ''HLT''" by simp
  have "snd (first_pass ?lines 0 Map.empty) ''far''
          = set_label Map.empty ''far'' (0 + int (length (filter counted (take 1024 ?lines)))) ''far''"
    by (rule first_pass_binding [OF j _ last]) (simp only: n dF)
  then show "label_table far_branch_source ''far'' = Some 1024"
    unfolding tk by (simp add: label_table_def far_branch_lines cB cH set_label_def)
  have "\<forall>x \<in> set ?lines. defined_label x \<noteq> Some ''hasOwnProperty''"
    by (simp add: dB dH dF)
  from first_pass_undefined [OF this, of 0 Map.empty]
  show "label_table far_branch_source ''hasOwnProperty'' = None"
    by (simp add: label_table_def far_branch_lines)
qed

lemma parse_far_branch:
  "\<exists>rest. parse far_branch_source = Inr (far_branch_record # rest) \<and> length rest = 1024"
proof -
  let ?tbl = "label_table far_branch_source"
  have pB: "pass1_text ''BEQ x0, x0, far'' = ''BEQ x0, x0, far''" by code_simp
  have pH: "pass1_text ''HLT'' = ''HLT''" by code_simp
  have pF: "pass1_text ''far: HLT'' = ''HLT''" by code_simp
  have e: "emits ''BEQ x0, x0, far''" by code_simp
  have t: "instruction_text ''BEQ x0, x0, far'' = ''BEQ x0, x0, far''" by code_simp
  have tk: "tokens ''BEQ x0, x0, far'' = [''BEQ'', ''x0'', ''x0'', ''far'']" by code_simp
  have m: "map_of instructionFormats (toUpperCase ''BEQ'') = Some BEQ" by code_simp
  have r: "parseRegister ''x0'' = Inr 0" by code_simp
  have f: "opcode_type BEQ = FmtSB" by simp
  have b: "parseInstruction ?tbl ''BEQ x0, x0, far'' 0 1 = Inr far_branch_record"
    by (simp add: parseInstruction_SB [OF tk m f] bind_def r label_or_immediate_def
        label_lookup_def far_branch_table far_branch_record_def)
  have l: "map pass1_text (split_on (CHR 10) far_branch_source)
             = ''BEQ x0, x0, far'' # replicate (Suc 1023) ''HLT''"
  proof -
    have "map pass1_text (split_on (CHR 10) far_branch_source)
             = ''BEQ x0, x0, far'' # ''HLT'' # replicate 1023 ''HLT''"
      by (simp add: far_branch_lines pB pH pF replicate_append_same)
    then show ?thesis by (simp only: replicate_Suc)
  qed
  have b': "parseInstruction ?tbl ''BEQ x0, x0, far'' 0 (0 + 1) = Inr far_branch_record"
    using b by simp
  have "second_pass ?tbl (''BEQ x0, x0, far'' # replicate (Suc 1023) ''HLT'') 0 0
          = Inr (far_branch_record
                 # map (\<lambda>k. \<lparr>opcode = HLT, format = FmtHLT, index = 0 + 1 + int k,
                       lineNum = 0 + 1 + k + 1, original = ''HLT'', rd = None, rs1 = None,
                       rs2 = None, imm = None, label = None\<rparr>) [0..<Suc 1023])"
    by (subst second_pass_Cons)
      (simp only: e if_True t b' second_pass_HLT_lines sum.case)
  then obtain rest where "second_pass ?tbl (''BEQ x0, x0, far'' # replicate (Suc 1023) ''HLT'') 0 0
          = Inr (far_branch_record # rest)" and "length rest = Suc 1023"
    by (metis length_map length_upt minus_nat.diff_0)
  then show ?thesis by (simp add: parse_eq l del: replicate_Suc)
qed

lemma decode_far_branch:
  "decode far_branch_record =
     Inr \<lparr>d_opcode = BEQ, d_type = FmtSB, d_format = FmtSB, d_index = 0, d_lineNum = 1,
          d_original = ''BEQ x0, x0, far'', d_rd = 0, d_rs1 = 0, d_rs2 = 0,
          d_imm = - 4096, d_shamt = None, d_label = Some ''far''\<rparr>"
  by code_simp

lemma run_far_branch:
  "map_option fst (executeProgram far_branch_source) = Some (Inl MissingOpcode)"
proof -
  from parse_far_branch obtain rest where
    p: "parse far_branch_source = Inr (far_branch_record # rest)" and n: "length rest = 1024"
    by blast
  let ?ins = "far_branch_record # rest"
  let ?st0 = "initial_state\<lparr>instructions := Some ?ins\<rparr>"
  let ?st1 = "?st0\<lparr>pc := - 1024\<rparr>"
  have 1: "fetch_decode_execute ?ins ?st0 = Inr ?st1"
    by (simp add: fetch_decode_execute_def initial_state_def decode_far_branch execute_def
        executeBEQ_def getRegister_def setPC_def)
  have r0: "running ?ins ?st0" by (simp add: running_def initial_state_def)
  have r1: "running ?ins ?st1" by (simp add: running_def initial_state_def n)
  have 2: "fetch_decode_execute ?ins ?st1 = Inl MissingOpcode"
    by (simp add: fetch_decode_execute_def)
  have "run_loop ?ins ?st1 = Some (Some MissingOpcode, ?st1)"
    by (subst run_loop.simps) (simp only: r1 2 if_True sum.case)
  then have "run_loop ?ins ?st0 = Some (Some MissingOpcode, ?st1)"
    by (subst run_loop.simps) (simp only: r0 1 if_True sum.case)
  then show ?thesis by (simp add: executeProgram_def p)
qed

text \<open>
  C8, what the code does: the immediate of a branch that names a label is not checked
  against the 13-bit range. The source \<open>far_branch_source\<close> parses, and the record of its
  branch, whose label stands 1024 instructions ahead, holds the immediate 4096, outside
  the range -4096..4095; the same branch written with the literal 4096 is rejected with
  the range error. The decoder sign-extends 4096 to -4096, so the branch goes 1024
  instructions back instead of forward, and the Run request on the source fails where
  the program should halt at the label. Immediate literals are checked as C8 says, for
  every format: \<open>immediate_literal_checked\<close>, \<open>literal_immediate_in_range\<close> and, for 2048
  and 2047 on an I-format line, \<open>I_format_2048_2047\<close>.
\<close>

theorem far_label_offset_unchecked:
  "map_sum id hd (parse far_branch_source) = Inr far_branch_record
   \<and> imm far_branch_record = Some 4096
   \<and> label far_branch_record = Some ''far''
   \<and> parse ''BEQ x0, x0, 4096'' = Inl (AtLine 1 (ImmediateRange 4096 13))
   \<and> map_sum id d_imm (decode far_branch_record) = Inr (- 4096)
   \<and> map_option fst (executeProgram far_branch_source) = Some (Inl MissingOpcode)"
proof -
  from parse_far_branch have 1: "map_sum id hd (parse far_branch_source) = Inr far_branch_record"
    by auto
  have 2: "parse ''BEQ x0, x0, 4096'' = Inl (AtLine 1 (ImmediateRange 4096 13))"
    by code_simp
  from 1 2 run_far_branch show ?thesis
    by (simp add: decode_far_branch) (simp add: far_branch_record_def)
qed
section \<open>Properties of the controller\<close>

lemma loop_body_done: "\<not> running ins s \<Longrightarrow> loop_body ins s = Inr s"
  by (simp add: loop_body_def)

lemma run_n_front:
  "run_n ins (Suc n) st =
     (case loop_body ins st of Inl e \<Rightarrow> Inl e | Inr s \<Rightarrow> run_n ins n s)"
proof (induction n)
  case 0
  show ?case by (simp split: sum.splits)
next
  case (Suc n)
  have "run_n ins (Suc (Suc n)) st =
          (case run_n ins (Suc n) st of Inl e \<Rightarrow> Inl e | Inr s \<Rightarrow> loop_body ins s)"
    by (rule run_n.simps(2))
  also have "\<dots> = (case loop_body ins st of Inl e \<Rightarrow> Inl e | Inr s \<Rightarrow> run_n ins (Suc n) s)"
    unfolding Suc.IH by (cases "loop_body ins st") simp_all
  finally show ?case .
qed

lemma run_loop_of_run_n:
  "run_n ins n st = Inr st' \<Longrightarrow> \<not> running ins st' \<Longrightarrow> run_loop ins st = Some (None, st')"
proof (induction n arbitrary: st)
  case 0
  then show ?case by (simp add: run_loop.simps)
next
  case (Suc n)
  from Suc.prems(1) obtain s where lb: "loop_body ins st = Inr s" and rn: "run_n ins n s = Inr st'"
    unfolding run_n_front by (cases "loop_body ins st") simp_all
  have ih: "run_loop ins s = Some (None, st')" using Suc.IH [OF rn Suc.prems(2)] .
  show ?case
  proof (cases "running ins st")
    case True
    with lb have "fetch_decode_execute ins st = Inr s" by (simp add: loop_body_def)
    with True ih show ?thesis by (subst run_loop.simps) simp
  next
    case False
    with lb have "s = st" by (simp add: loop_body_def)
    with ih show ?thesis by simp
  qed
qed

lemma run_n_of_run_loop_aux:
  assumes a: "run_loop ins st = Some y"
  shows "\<forall>s. y = (None, s) \<longrightarrow> (\<exists>N. run_n ins N st = Inr s \<and> \<not> running ins s)"
proof (rule run_loop.raw_induct
    [where P = "\<lambda>ins st y. \<forall>s. y = (None, s)
                  \<longrightarrow> (\<exists>N. run_n ins N st = Inr s \<and> \<not> running ins s)", OF _ a])
  fix rl :: "instruction list \<Rightarrow> sim_state \<Rightarrow> (error option \<times> sim_state) option"
    and ins st y
  assume ih: "\<And>ins st y. rl ins st = Some y \<Longrightarrow>
           \<forall>s. y = (None, s) \<longrightarrow> (\<exists>N. run_n ins N st = Inr s \<and> \<not> running ins s)"
    and body: "(if running ins st
          then case fetch_decode_execute ins st of Inl e \<Rightarrow> Some (Some e, st)
               | Inr st' \<Rightarrow> rl ins st'
          else Some (None, st)) = Some y"
  show "\<forall>s. y = (None, s) \<longrightarrow> (\<exists>N. run_n ins N st = Inr s \<and> \<not> running ins s)"
  proof (intro allI impI)
    fix s
    assume y: "y = (None, s)"
    show "\<exists>N. run_n ins N st = Inr s \<and> \<not> running ins s"
    proof (cases "running ins st")
      case False
      with body y have "s = st" by simp
      with False have "run_n ins 0 st = Inr s \<and> \<not> running ins s" by simp
      then show ?thesis by blast
    next
      case True
      with body y obtain st' where f: "fetch_decode_execute ins st = Inr st'"
        and r: "rl ins st' = Some (None, s)"
        by (auto split: sum.splits)
      from ih [OF r] obtain N where n: "run_n ins N st' = Inr s" and d: "\<not> running ins s"
        by blast
      from True f have "loop_body ins st = Inr st'" by (simp add: loop_body_def)
      with n have "run_n ins (Suc N) st = Inr s" unfolding run_n_front by simp
      with d show ?thesis by blast
    qed
  qed
qed

text \<open>
  The loop returns without error exactly when some number of unrolled passes reaches a
  state in which its guard fails, and it returns that state.
\<close>

lemma run_loop_iff_run_n:
  "run_loop ins st = Some (None, s) \<longleftrightarrow> (\<exists>N. run_n ins N st = Inr s \<and> \<not> running ins s)"
  using run_n_of_run_loop_aux run_loop_of_run_n by blast

lemma run_n_stay:
  "run_n ins n st = Inr s \<Longrightarrow> \<not> running ins s \<Longrightarrow> run_n ins (n + k) st = Inr s"
  by (induction k) (simp_all add: loop_body_done)

lemma mem_get_upd: "mem_get (m(a \<mapsto> v)) b = (if b = a then v else mem_get m b)"
  by (simp add: mem_get_def)

lemma sim_rel_reads:
  assumes "sim_rel s t"
  shows "getRegister s r = getRegister t r" "readByte s a = readByte t a"
    "readByteUnsigned s a = readByteUnsigned t a" "readHalfWord s a = readHalfWord t a"
    "readHalfWordUnsigned s a = readHalfWordUnsigned t a" "readWord s a = readWord t a"
    "pc s = pc t"
  using assms
  by (simp_all add: sim_rel_def getRegister_def readByte_def readByteUnsigned_def
      readHalfWord_def readHalfWordUnsigned_def readWord_def)

lemma sim_rel_updates:
  assumes "sim_rel s t"
  shows "sim_rel (setRegister s r v) (setRegister t r v)"
    "sim_rel (incrementPC s) (incrementPC t)" "sim_rel (setPC s p) (setPC t p)"
    "sim_rel (halt s) (halt t)" "sim_rel (writeByte s a v) (writeByte t a v)"
    "sim_rel (writeHalfWord s a v) (writeHalfWord t a v)"
    "sim_rel (writeWord s a v) (writeWord t a v)"
  using assms
  by (simp_all add: sim_rel_def setRegister_def incrementPC_def setPC_def halt_def
      writeByte_def writeHalfWord_def writeWord_def mem_get_upd)

lemma execute_sim_rel:
  assumes "sim_rel s t"
  shows "sim_rel (execute d s) (execute d t)"
  by (cases "d_opcode d")
    (simp_all add: execute_def handler_defs Let_def sim_rel_reads [OF assms]
      sim_rel_updates assms)

lemma state_of_sim_rel:
  assumes "sim_rel s t"
  shows "state_of s = state_of t"
proof -
  have "slice256 (memory s) = slice256 (memory t)"
  proof
    fix a
    show "slice256 (memory s) a = slice256 (memory t) a"
    proof (cases "0 \<le> a \<and> a < 256")
      case True
      with assms obtain x y where x: "memory s a = Some x" and y: "memory t a = Some y"
        unfolding sim_rel_def by blast
      from assms have "mem_get (memory s) a = mem_get (memory t) a"
        unfolding sim_rel_def by blast
      with x y have "x = y" by (simp add: mem_get_def)
      with x y True show ?thesis by (simp add: slice256_def)
    next
      case False
      then show ?thesis by (auto simp: slice256_def)
    qed
  qed
  with assms show ?thesis by (simp add: state_of_def sim_rel_def)
qed

lemma sim_rel_instructions: "sim_rel s (t\<lparr>instructions := i\<rparr>) = sim_rel s t"
  by (simp add: sim_rel_def)

lemma running_sim_rel: "sim_rel s t \<Longrightarrow> running ins s = running ins t"
  by (simp add: sim_rel_def running_def)

lemma step_one:
  assumes p: "parse code = Inr ins"
    and t: "(case cs of Some c \<Rightarrow> c | None \<Rightarrow> glob) = t"
    and i: "instructions t = Some []"
    and r: "sim_rel s t"
    and l: "loop_body ins s = Inr s'"
  shows "\<exists>g. stepExecution code cs glob = (Inr (state_of g), g) \<and> sim_rel s' g"
proof -
  let ?st1 = "t\<lparr>instructions := Some ins\<rparr>"
  have r1: "sim_rel s ?st1" using r by (simp add: sim_rel_instructions)
  have run: "running ins ?st1 = running ins s" using running_sim_rel [OF r1] by simp
  show ?thesis
  proof (cases "running ins s")
    case True
    with l have f: "fetch_decode_execute ins s = Inr s'" by (simp add: loop_body_def)
    then obtain d where d: "decode (ins ! nat (pc s)) = Inr d" and nn: "\<not> pc s < 0"
      and s': "s' = execute d s"
      by (auto simp: fetch_decode_execute_def split: if_splits sum.splits)
    have pcs: "pc ?st1 = pc s" using r1 by (simp add: sim_rel_def)
    have f1: "fetch_decode_execute ins ?st1 = Inr (execute d ?st1)"
      using d nn pcs by (simp add: fetch_decode_execute_def)
    have "stepExecution code cs glob = (Inr (state_of (execute d ?st1)), execute d ?st1)"
      using t i p True run f1 by (simp add: stepExecution_def Let_def)
    moreover have "sim_rel s' (execute d ?st1)"
      unfolding s' by (rule execute_sim_rel [OF r1])
    ultimately show ?thesis by blast
  next
    case False
    with l have "s' = s" by (simp add: loop_body_def)
    moreover have "stepExecution code cs glob = (Inr (state_of ?st1), ?st1)"
      using t i p False run by (simp add: stepExecution_def Let_def)
    ultimately show ?thesis using r1 by blast
  qed
qed

lemma mem_get_slice256:
  "mem_get (slice256 m) a = (if 0 \<le> a \<and> a < 256 then mem_get m a else 0)"
  by (simp add: mem_get_def slice256_def)

lemma thread_rel:
  assumes r: "sim_rel s g" and w: "in_window (memory s)"
  shows "sim_rel s (with_instructions (state_of g))"
proof -
  have m: "mem_get (memory s) a = mem_get (slice256 (memory g)) a" for a
  proof (cases "0 \<le> a \<and> a < 256")
    case True
    then show ?thesis using r by (simp add: mem_get_slice256 sim_rel_def)
  next
    case False
    then have "mem_get (memory s) a = 0" using w unfolding in_window_def by auto
    with False show ?thesis by (auto simp: mem_get_slice256)
  qed
  have d: "0 \<le> a \<and> a < 256 \<longrightarrow> slice256 (memory g) a \<noteq> None" for a
    using r by (simp add: slice256_def sim_rel_def)
  show ?thesis
    using r m d by (simp add: sim_rel_def with_instructions_def state_of_def)
qed

lemma steps_sim:
  assumes p: "parse code = Inr ins"
    and w: "\<forall>k s. run_n ins k (initial_state\<lparr>instructions := Some ins\<rparr>) = Inr s
               \<longrightarrow> in_window (memory s)"
  shows "run_n ins n (initial_state\<lparr>instructions := Some ins\<rparr>) = Inr s \<Longrightarrow>
         \<exists>g. step_requests with_instructions code n = (Inr (state_of g), g) \<and> sim_rel s g
              \<and> (n = 0 \<longrightarrow> instructions g = Some [])"
proof (induction n arbitrary: s)
  case 0
  then have "s = initial_state\<lparr>instructions := Some ins\<rparr>" by simp
  then have "sim_rel s initial_state"
    by (simp add: sim_rel_def initial_state_def)
  then show ?case by (auto simp: reset_def initial_state_def)
next
  case (Suc n)
  from Suc.prems obtain s0 where s0: "run_n ins n (initial_state\<lparr>instructions := Some ins\<rparr>) = Inr s0"
    and l: "loop_body ins s0 = Inr s"
    by (auto split: sum.splits)
  from Suc.IH [OF s0] obtain g where g: "step_requests with_instructions code n = (Inr (state_of g), g)"
    and r: "sim_rel s0 g" and z: "n = 0 \<longrightarrow> instructions g = Some []"
    by blast
  let ?cs = "if n = 0 then None else Some (with_instructions (state_of g))"
  let ?t = "if n = 0 then g else with_instructions (state_of g)"
  have t: "(case ?cs of Some c \<Rightarrow> c | None \<Rightarrow> g) = ?t" by simp
  have i: "instructions ?t = Some []" using z by (simp add: with_instructions_def)
  have "in_window (memory s0)" using w s0 by blast
  then have rt: "sim_rel s0 ?t" using r thread_rel [OF r] by simp
  from step_one [OF p t i rt l] obtain g' where
    "stepExecution code ?cs g = (Inr (state_of g'), g')" and "sim_rel s g'" by blast
  with g show ?case by simp
qed

text \<open>
  C1, as amended. Let Run complete a program without error after \<open>N\<close> passes of its
  loop (every run that returns has such an \<open>N\<close>: \<open>run_loop_iff_run_n\<close>), and let no
  state of that run hold a non-zero byte outside the first 256 bytes of memory. Then
  \<open>N\<close> or more Step requests, the first sent after a Reset with no state and each later
  one carrying the state of the previous response with an empty \<open>instructions\<close> list
  added, return the state that Run returns: the same registers, first 256 bytes of
  memory, program counter and halted flag.
\<close>

theorem step_mode_equivalence:
  assumes p: "parse code = Inr ins"
    and n: "run_n ins N (initial_state\<lparr>instructions := Some ins\<rparr>) = Inr final"
    and f: "\<not> running ins final"
    and w: "\<forall>k\<le>N. \<forall>s. run_n ins k (initial_state\<lparr>instructions := Some ins\<rparr>) = Inr s
               \<longrightarrow> in_window (memory s)"
  shows "executeProgram code = Some (Inr (state_of final), final)
       \<and> (\<forall>n\<ge>N. fst (step_requests with_instructions code n) = Inr (state_of final))"
proof -
  let ?st0 = "initial_state\<lparr>instructions := Some ins\<rparr>"
  have later: "run_n ins (N + k) ?st0 = Inr final" for k
    by (rule run_n_stay [OF n f])
  have w': "in_window (memory s)" if "run_n ins k ?st0 = Inr s" for k s
  proof (cases "k \<le> N")
    case True
    with w that show ?thesis by blast
  next
    case False
    then obtain j where "k = N + j" using le_Suc_ex [of N k] by auto
    with later [of j] that have "s = final" by simp
    with w n show ?thesis by blast
  qed
  have run: "executeProgram code = Some (Inr (state_of final), final)"
    using p run_loop_of_run_n [OF n f] by (simp add: executeProgram_def)
  have steps: "fst (step_requests with_instructions code m) = Inr (state_of final)"
    if "N \<le> m" for m
  proof -
    from that obtain j where "m = N + j" using le_Suc_ex by blast
    with later [of j] have "run_n ins m ?st0 = Inr final" by simp
    moreover have "\<forall>k s. run_n ins k ?st0 = Inr s \<longrightarrow> in_window (memory s)"
      using w' by blast
    ultimately obtain g where
      "step_requests with_instructions code m = (Inr (state_of g), g)" and "sim_rel final g"
      using steps_sim [OF p] by blast
    then show ?thesis using state_of_sim_rel by fastforce
  qed
  from run steps show ?thesis by blast
qed

section \<open>The controller on the example programs\<close>

lemma to_int32_id: "- 2147483648 \<le> x \<Longrightarrow> x < 2147483648 \<Longrightarrow> to_int32 x = x"
proof -
  assume a: "- 2147483648 \<le> x" "x < 2147483648"
  show ?thesis
  proof (cases "0 \<le> x")
    case True
    with a have "x mod 4294967296 = x" by (simp add: mod_pos_pos_trivial)
    with a show ?thesis by (simp add: to_int32_wrap32 wrap32_def)
  next
    case False
    have "(x + 4294967296) mod 4294967296 = x + 4294967296"
      using a False by (intro mod_pos_pos_trivial) simp_all
    moreover have "(x + 4294967296) mod 4294967296 = x mod 4294967296"
      by (rule mod_add_self2)
    ultimately have "x mod 4294967296 = x + 4294967296" by simp
    with a False show ?thesis by (simp add: to_int32_wrap32 wrap32_def)
  qed
qed

lemma signExtend_values:
  "signExtend 10 12 = 10" "signExtend 20 12 = 20" "signExtend 100 12 = 100"
  "signExtend 7 12 = 7" "signExtend 300 12 = 300" "signExtend 2 12 = 2"
  "signExtend 9 12 = 9" "signExtend 2000 12 = 2000" "signExtend 1 12 = 1"
  by code_simp+

lemma js_values:
  "js_and 30 255 = 30" "js_sar 30 8 = 0" "js_sar 30 16 = 0" "js_sar 30 24 = 0"
  "js_and 7 255 = 7" "js_sar 7 8 = 0" "js_sar 7 16 = 0" "js_sar 7 24 = 0"
  "js_and 0 255 = 0" "js_and 7 65535 = 7"
  "js_shl 0 8 = 0" "js_shl 0 16 = 0" "js_shl 0 24 = 0"
  "js_or 7 0 = 7" "js_or 0 0 = 0"
  by code_simp+

lemma run_n_numeral:
  "run_n ins (numeral k) st =
     (case run_n ins (pred_numeral k) st of Inl e \<Rightarrow> Inl e | Inr s \<Rightarrow> loop_body ins s)"
  by (simp add: numeral_eq_Suc)

lemma run_n_1: "run_n ins 1 st = loop_body ins st"
  by simp

lemma step_requests_numeral:
  "step_requests client code (numeral k) =
     (case step_requests client code (pred_numeral k) of
        (Inl e, g) \<Rightarrow> (Inl e, g)
      | (Inr r, g) \<Rightarrow>
          stepExecution code (if pred_numeral k = 0 then None else Some (client r)) g)"
  by (simp add: numeral_eq_Suc)

lemma step_requests_1:
  "step_requests client code 1 = stepExecution code None (snd reset)"
  by (simp add: reset_def)

lemmas eval_defs = loop_body_def running_def fetch_decode_execute_def decode_def
  decodeRFormat_def decodeIFormat_def decodeStoreFormat_def decodeLoadFormat_def seq_def
  validateRegister_def execute_def handler_defs getRegister_def setRegister_def
  incrementPC_def halt_def setPC_def writeByte_def writeHalfWord_def writeWord_def
  readWord_def mem_get_def Let_def signExtend_values js_values to_int32_id
  run_n_numeral run_n_1

lemma parse_scenario: "parse scenario_source = Inr scenario_program"
  unfolding scenario_source_def scenario_program_def by code_simp

lemma run_scenario:
  "run_n scenario_program 5 (initial_state\<lparr>instructions := Some scenario_program\<rparr>) = Inr scenario_final"
  by (simp add: eval_defs initial_state_def scenario_program_def scenario_final_def)


lemma scenario_window:
  "\<forall>k\<le>5. \<forall>s. run_n scenario_program k (initial_state\<lparr>instructions := Some scenario_program\<rparr>) = Inr s
        \<longrightarrow> in_window (memory s)"
proof (intro allI impI)
  fix k :: nat and s
  assume k: "k \<le> 5"
    and r: "run_n scenario_program k (initial_state\<lparr>instructions := Some scenario_program\<rparr>) = Inr s"
  from k have "k = 0 \<or> k = 1 \<or> k = 2 \<or> k = 3 \<or> k = 4 \<or> k = 5" by arith
  then show "in_window (memory s)"
    using r
    by (elim disjE)
      (auto simp: eval_defs initial_state_def scenario_program_def in_window_def)
qed

lemma scenario_done: "\<not> running scenario_program scenario_final"
  by (simp add: running_def scenario_final_def scenario_program_def)


theorem step_mode_equivalence_witness:
  "parse scenario_source = Inr scenario_program
   \<and> run_n scenario_program 5 (initial_state\<lparr>instructions := Some scenario_program\<rparr>)
       = Inr scenario_final
   \<and> \<not> running scenario_program scenario_final
   \<and> executeProgram scenario_source = Some (Inr (state_of scenario_final), scenario_final)
   \<and> fst (step_requests with_instructions scenario_source 5) = Inr (state_of scenario_final)
   \<and> fst (step_requests with_instructions scenario_source 8) = Inr (state_of scenario_final)"
proof -
  note t = step_mode_equivalence [OF parse_scenario run_scenario scenario_done
      scenario_window]
  from t have a: "executeProgram scenario_source
                    = Some (Inr (state_of scenario_final), scenario_final)"
    by (rule conjunct1)
  from t have b: "\<forall>n\<ge>5. fst (step_requests with_instructions scenario_source n)
                    = Inr (state_of scenario_final)"
    by (rule conjunct2)
  from b have b5: "fst (step_requests with_instructions scenario_source 5)
                    = Inr (state_of scenario_final)"
    by simp
  from b have b8: "fst (step_requests with_instructions scenario_source 8)
                    = Inr (state_of scenario_final)"
    by simp
  from parse_scenario run_scenario scenario_done a b5 b8 show ?thesis by blast
qed

lemma parse_far_store: "parse far_store_source = Inr far_store_program"
  unfolding far_store_source_def far_store_program_def by code_simp

lemmas step_defs = step_requests_numeral step_requests_1 stepExecution_def reset_def
  state_of_def slice256_def with_instructions_def as_returned_def

text \<open>
  C1 as stated fails on the program that stores 7 at address 300 and loads it back
  into x2. Run returns x2 = 7. Four Step requests, each carrying the previous response's
  state with an empty \<open>instructions\<close> list added, return x2 = 0: a response carries the
  first 256 bytes of memory only, so the stored word is gone when the load runs. And
  when the returned state is sent back as it is, the second Step request fails with a
  TypeError, because the returned state has no \<open>instructions\<close> property.
\<close>

theorem step_mode_counterexample:
  "(case executeProgram far_store_source of
      Some (Inr r, g) \<Rightarrow> registers r ! 2 = 7 \<and> pc r = 3 \<and> halted r
    | _ \<Rightarrow> False)
   \<and> (case fst (step_requests with_instructions far_store_source 4) of
        Inr r \<Rightarrow> registers r ! 2 = 0 \<and> pc r = 3 \<and> halted r
      | Inl e \<Rightarrow> False)
   \<and> fst (step_requests as_returned far_store_source 2) = Inl TypeError"
proof -
  have "\<exists>s. run_n far_store_program 4 (initial_state\<lparr>instructions := Some far_store_program\<rparr>)
              = Inr s
            \<and> \<not> running far_store_program s
            \<and> registers s ! 2 = 7 \<and> pc s = 3 \<and> halted s"
    by (simp add: eval_defs initial_state_def far_store_program_def)
  then obtain s where
    r: "run_n far_store_program 4 (initial_state\<lparr>instructions := Some far_store_program\<rparr>)
       = Inr s"
    and nr: "\<not> running far_store_program s"
    and s: "registers s ! 2 = 7" "pc s = 3" "halted s"
    by blast
  have "run_loop far_store_program
               (initial_state\<lparr>instructions := Some far_store_program\<rparr>) = Some (None, s)"
    by (rule run_loop_of_run_n [OF r nr])
  then have 1: "(case executeProgram far_store_source of
      Some (Inr r, g) \<Rightarrow> registers r ! 2 = 7 \<and> pc r = 3 \<and> halted r
    | _ \<Rightarrow> False)"
    using s by (simp add: executeProgram_def parse_far_store state_of_def)
  have 2: "(case fst (step_requests with_instructions far_store_source 4) of
        Inr r \<Rightarrow> registers r ! 2 = 0 \<and> pc r = 3 \<and> halted r
      | Inl e \<Rightarrow> False)"
    by (simp add: step_defs parse_far_store eval_defs initial_state_def
        far_store_program_def)
  have 3: "fst (step_requests as_returned far_store_source 2) = Inl TypeError"
    by (simp add: step_defs parse_far_store eval_defs initial_state_def
        far_store_program_def)
  from 1 2 3 show ?thesis by blast
qed

lemma parse_unaligned: "parse unaligned_source = Inr unaligned_program"
  unfolding unaligned_source_def unaligned_program_def by code_simp

text \<open>
  The checks of the Simulator class, which C2 describes: a word access at an address
  that is not a multiple of 4, a half-word access at an odd address and an access
  outside the buffer fail; a byte store inside the buffer succeeds at any address.
\<close>

lemma Simulator_store_checks:
  "0 \<le> a \<and> a + 4 \<le> byteLength \<and> a mod 4 \<noteq> 0
     \<longrightarrow> Simulator_writeWord s a v = Inl (UnalignedWord a)"
  "0 \<le> a \<and> a + 2 \<le> byteLength \<and> odd a
     \<longrightarrow> Simulator_writeHalfWord s a v = Inl (UnalignedHalfWord a)"
  "0 \<le> a \<and> a < byteLength \<longrightarrow> (\<exists>s'. Simulator_writeByte s a v = Inr s')"
  "a < 0 \<or> byteLength < a + 4 \<longrightarrow> Simulator_writeWord s a v = Inl (MemoryAccessViolation a)"
  "a < 0 \<or> byteLength < a + 2
     \<longrightarrow> Simulator_writeHalfWord s a v = Inl (MemoryAccessViolation a)"
  "a < 0 \<or> byteLength < a + 1 \<longrightarrow> Simulator_writeByte s a v = Inl (MemoryAccessViolation a)"
  by (auto simp: Simulator_writeWord_def Simulator_writeHalfWord_def Simulator_writeByte_def
      validateAddress_def seq_def js_rem_def js_rem_2 sgn_if Let_def)

lemma Simulator_load_checks:
  "0 \<le> a \<and> a + 4 \<le> byteLength \<and> a mod 4 \<noteq> 0
     \<longrightarrow> Simulator_readWord s a = Inl (UnalignedWord a)"
  "0 \<le> a \<and> a + 2 \<le> byteLength \<and> odd a
     \<longrightarrow> Simulator_readHalfWord s a = Inl (UnalignedHalfWord a)
         \<and> Simulator_readHalfWordUnsigned s a = Inl (UnalignedHalfWord a)"
  "a < 0 \<or> byteLength < a + 4 \<longrightarrow> Simulator_readWord s a = Inl (MemoryAccessViolation a)"
  "a < 0 \<or> byteLength < a + 2
     \<longrightarrow> Simulator_readHalfWord s a = Inl (MemoryAccessViolation a)
         \<and> Simulator_readHalfWordUnsigned s a = Inl (MemoryAccessViolation a)"
  "a < 0 \<or> byteLength < a + 1
     \<longrightarrow> Simulator_readByte s a = Inl (MemoryAccessViolation a)
         \<and> Simulator_readByteUnsigned s a = Inl (MemoryAccessViolation a)"
  by (auto simp: Simulator_readWord_def Simulator_readHalfWord_def
      Simulator_readHalfWordUnsigned_def Simulator_readByte_def
      Simulator_readByteUnsigned_def validateAddress_def seq_def js_rem_def js_rem_2 sgn_if
      Let_def)

text \<open>
  C2, what the code does: the Run request on the program that stores a word at
  address 2, a half-word at address 9 and a word at address 2000 succeeds. The
  executor's adapter writes the bytes with no check of the address; the run ends
  halted at instruction 4 with the stored bytes in memory.
\<close>

theorem unaligned_store_succeeds:
  "(case executeProgram unaligned_source of
      Some (Inr r, g) \<Rightarrow>
        halted r \<and> pc r = 4 \<and> mem_get (memory r) 2 = 7 \<and> mem_get (memory r) 9 = 7
        \<and> mem_get (memory g) 2000 = 7
    | _ \<Rightarrow> False)"
proof -
  have "\<exists>s. run_n unaligned_program 5 (initial_state\<lparr>instructions := Some unaligned_program\<rparr>)
              = Inr s
            \<and> \<not> running unaligned_program s
            \<and> halted s \<and> pc s = 4 \<and> mem_get (memory s) 2 = 7 \<and> mem_get (memory s) 9 = 7
            \<and> mem_get (memory s) 2000 = 7"
    by (simp add: eval_defs initial_state_def unaligned_program_def)
  then obtain s where
    r: "run_n unaligned_program 5 (initial_state\<lparr>instructions := Some unaligned_program\<rparr>)
       = Inr s"
    and nr: "\<not> running unaligned_program s"
    and s: "halted s" "pc s = 4" "mem_get (memory s) 2 = 7" "mem_get (memory s) 9 = 7"
      "mem_get (memory s) 2000 = 7"
    by blast
  have "run_loop unaligned_program
               (initial_state\<lparr>instructions := Some unaligned_program\<rparr>) = Some (None, s)"
    by (rule run_loop_of_run_n [OF r nr])
  then show ?thesis
    using s by (simp add: executeProgram_def parse_unaligned state_of_def mem_get_slice256)
qed

text \<open>
  Where a Step request executes nothing: on a state that is halted, or whose program
  counter is at or past the end of its cached instruction list, the response carries
  the state as it came, the halted flag included; under a negative program counter the
  response is the decoder's error. \<open>fetchInstruction\<close> of the Simulator class is the
  place that sets the flag when the program counter is out of range.
\<close>

lemma stepExecution_noop:
  assumes "instructions cs = Some ins" and "ins \<noteq> []"
    and "halted cs \<or> int (length ins) \<le> pc cs"
  shows "stepExecution code (Some cs) g = (Inr (state_of cs), cs)"
  using assms by (auto simp: stepExecution_def running_def Let_def state_of_def)

lemma stepExecution_negative_pc:
  assumes "instructions cs = Some ins" and "ins \<noteq> []"
    and "\<not> halted cs" and "pc cs < 0"
  shows "stepExecution code (Some cs) g = (Inl MissingOpcode, cs)"
  using assms
  by (auto simp: stepExecution_def running_def fetch_decode_execute_def Let_def)

lemma fetchInstruction_halts:
  assumes "s_pc s < 0 \<or> int (length (s_instructions s)) \<le> s_pc s"
  shows "fetchInstruction s = (None, s\<lparr>s_halted := True\<rparr>)"
  using assms by (auto simp: fetchInstruction_def)

lemma parse_addi: "parse ''ADDI x1, x0, 1'' =
    Inr [\<lparr>opcode = ADDI, format = FmtI, index = 0, lineNum = 1,
          original = ''ADDI x1, x0, 1'', rd = Some 1, rs1 = Some 0, rs2 = None,
          imm = Some 1, label = None\<rparr>]"
  by code_simp

text \<open>
  C9, what the code does: a Step request for the one-line program \<open>ADDI x1, x0, 1\<close>
  on the state that the first step left (program counter 1, past the last instruction,
  not halted) returns that state with the halted flag still false; and Run on the same
  program ends with the program counter past the last instruction and the halted flag
  false.
\<close>

theorem step_past_end_not_halted:
  "(case fst (stepExecution ''ADDI x1, x0, 1''
        (Some \<lparr>registers = (replicate 32 0)[1 := 1],
               memory = (\<lambda>a. if 0 \<le> a \<and> a < 256 then Some 0 else None),
               pc = 1, halted = False, instructions = Some []\<rparr>) initial_state) of
      Inr r \<Rightarrow> pc r = 1 \<and> \<not> halted r \<and> registers r = (replicate 32 0)[1 := 1]
    | Inl e \<Rightarrow> False)
   \<and> (case executeProgram ''ADDI x1, x0, 1'' of
        Some (Inr r, g) \<Rightarrow> pc r = 1 \<and> \<not> halted r
      | _ \<Rightarrow> False)"
proof -
  have 1: "(case fst (stepExecution ''ADDI x1, x0, 1''
        (Some \<lparr>registers = (replicate 32 0)[1 := 1],
               memory = (\<lambda>a. if 0 \<le> a \<and> a < 256 then Some 0 else None),
               pc = 1, halted = False, instructions = Some []\<rparr>) initial_state) of
      Inr r \<Rightarrow> pc r = 1 \<and> \<not> halted r \<and> registers r = (replicate 32 0)[1 := 1]
    | Inl e \<Rightarrow> False)"
    by (simp add: stepExecution_def parse_addi running_def state_of_def)
  let ?p = "[\<lparr>opcode = ADDI, format = FmtI, index = 0, lineNum = 1,
          original = ''ADDI x1, x0, 1'', rd = Some 1, rs1 = Some 0, rs2 = None,
          imm = Some 1, label = None\<rparr>]"
  have "\<exists>s. run_n ?p 1 (initial_state\<lparr>instructions := Some ?p\<rparr>) = Inr s
            \<and> \<not> running ?p s \<and> pc s = 1 \<and> \<not> halted s"
    by (simp add: eval_defs initial_state_def)
  then obtain s where r: "run_n ?p 1 (initial_state\<lparr>instructions := Some ?p\<rparr>) = Inr s"
    and nr: "\<not> running ?p s" and s: "pc s = 1" "\<not> halted s"
    by blast
  have "run_loop ?p (initial_state\<lparr>instructions := Some ?p\<rparr>) = Some (None, s)"
    by (rule run_loop_of_run_n [OF r nr])
  then have 2: "(case executeProgram ''ADDI x1, x0, 1'' of
        Some (Inr r, g) \<Rightarrow> pc r = 1 \<and> \<not> halted r
      | _ \<Rightarrow> False)"
    using s by (simp add: executeProgram_def parse_addi state_of_def)
  from 1 2 show ?thesis by blast
qed


end
